theory Spec2Isabelle
  imports Complex_Main "HOL-Library.Product_Lexorder"
begin

section \<open>Ledger store\<close>

text \<open>
  The billing and payment routes (\<^verbatim>\<open>src/routes/billing.js\<close>, \<^verbatim>\<open>src/routes/payments.js\<close>) are
  sequences of reads and writes on tables of a hosted relational store. A table is a list of
  rows, a row is a record, and a handler takes the ledger and returns the reply it sends
  together with the ledger it leaves behind.

  Conventions of the embedding:
  \<^item> decimal columns (\<^verbatim>\<open>amount\<close>, \<^verbatim>\<open>total_balance\<close>) are exact rationals; the source
    computes on IEEE doubles, whose rounding is not part of the model, but for the one
    comparison of billing generation that the doubles can decide either way;
  \<^item> a nullable column is an \<open>option\<close>; \<open>None\<close> is SQL \<^verbatim>\<open>null\<close>;
  \<^item> status and type columns are the strings the source compares them with;
  \<^item> an instant (\<^verbatim>\<open>new Date().toISOString()\<close>) is a natural number handed to the
    handler as \<open>now\<close>; a calendar date is a triple (year, month 1..12, day), ordered
    chronologically;
  \<^item> a primary key generated by the store on insert is one more than the largest key of
    the table.
\<close>

type_synonym timestamp = nat
type_synonym date = "nat \<times> nat \<times> nat"

datatype reference = MockRef nat timestamp | GatewayRef string

record payment =
  pay_id :: nat
  pay_account_id :: nat
  pay_enrollment_id :: "nat option"
  pay_amount :: rat
  pay_status :: string
  pay_type :: string
  pay_method :: "string option"
  pay_reference_no :: "reference option"
  pay_created_by :: "nat option"
  pay_date :: timestamp
  pay_for_semester_id :: "nat option"
  pay_idempotency_key :: "(nat \<times> string \<times> timestamp) option"

record account =
  acc_id :: nat
  acc_student_id :: nat
  acc_total_balance :: rat
  acc_last_updated :: "timestamp option"

record payment_transaction =
  ptx_payment_id :: nat
  ptx_status :: string
  ptx_paid_at :: "timestamp option"
  ptx_payment_method :: "string option"
  ptx_paymongo_status :: "string option"

record enrollment_fee =
  fee_id :: nat
  fee_enrollment_id :: nat
  fee_type :: string
  fee_description :: string
  fee_amount :: rat
  fee_is_paid :: bool
  fee_paid_at :: "timestamp option"

record payment_installment =
  inst_id :: nat
  inst_enrollment_id :: nat
  inst_number :: int
  inst_amount :: rat
  inst_due_date :: date
  inst_status :: string
  inst_paid_at :: "timestamp option"
  inst_payment_id :: "nat option"

record account_transaction =
  atx_account_id :: nat
  atx_payment_id :: nat
  atx_type :: string
  atx_amount :: rat
  atx_balance_before :: rat
  atx_balance_after :: rat
  atx_description :: string
  atx_created_by :: "nat option"
  atx_payment_date :: timestamp

record tuition_scheme =
  sch_id :: nat
  sch_name :: string
  sch_type :: string
  sch_amount :: rat
  sch_downpayment :: "rat option"
  sch_monthly_payment :: "rat option"
  sch_months :: "int option"
  sch_discount :: "rat option"

record enrollment =
  enr_id :: nat
  enr_student_id :: nat
  enr_program_id :: nat
  enr_semester_id :: nat
  enr_scheme_id :: "nat option"
  enr_status :: string

record student =
  stu_id :: nat
  stu_year_level :: nat

record course_subject =
  csub_subject_id :: nat
  csub_program_id :: nat
  csub_semester_id :: nat
  csub_year_level :: nat

record enrollment_subject =
  es_enrollment_id :: nat
  es_subject_id :: nat
  es_status :: string

record ledger =
  enrollments :: "enrollment list"
  tuition_schemes :: "tuition_scheme list"
  students :: "student list"
  course_subjects :: "course_subject list"
  enrollment_subjects :: "enrollment_subject list"
  accounts :: "account list"
  payments :: "payment list"
  payment_transactions :: "payment_transaction list"
  enrollment_fees :: "enrollment_fee list"
  payment_installments :: "payment_installment list"
  account_transactions :: "account_transaction list"

text \<open>
  \<^verbatim>\<open>.single()\<close> yields a row only when the filter selects exactly one;
  \<^verbatim>\<open>.maybeSingle()\<close> yields \<^verbatim>\<open>null\<close> data on no row and an error on several.
\<close>

definition single :: "'a list \<Rightarrow> 'a option" where
  "single xs = (case xs of [x] \<Rightarrow> Some x | _ \<Rightarrow> None)"

definition maybeSingle :: "'a list \<Rightarrow> string + 'a option" where
  "maybeSingle xs =
     (case xs of [] \<Rightarrow> Inr None | [x] \<Rightarrow> Inr (Some x) | _ \<Rightarrow> Inl ''multiple rows returned'')"

text \<open>Truthiness of a nullable numeric id and of a nullable string, as JavaScript tests them.\<close>

definition truthy_id :: "nat option \<Rightarrow> bool" where
  "truthy_id v = (case v of None \<Rightarrow> False | Some n \<Rightarrow> n \<noteq> 0)"

definition truthy_str :: "string option \<Rightarrow> bool" where
  "truthy_str v = (case v of None \<Rightarrow> False | Some s \<Rightarrow> s \<noteq> [])"

text \<open>Replies: \<^verbatim>\<open>res.status(c).json({...})\<close>, \<^verbatim>\<open>res.redirect(url)\<close>, \<^verbatim>\<open>res.status(c).send(text)\<close>.\<close>

datatype jv = JS string | JB bool | JN rat | JI nat

datatype reply = Json nat "(string \<times> jv) list" | Redirect string "nat option" | Send nat string

text \<open>
  A redirect is the target up to its \<^verbatim>\<open>payment_id\<close> query parameter, and that
  parameter's value when the target has one.
\<close>

fun status_code :: "reply \<Rightarrow> nat" where
  "status_code (Json c _) = c"
| "status_code (Redirect _ _) = 302"
| "status_code (Send c _) = c"

text \<open>Process environment read when the routers are built.\<close>

record env =
  env_PAYMONGO_ENABLED :: "string option"
  env_PAYMONGO_SECRET_KEY :: "string option"
  env_PAYMONGO_PUBLIC_KEY :: "string option"
  env_PAYMONGO_WEBHOOK_SECRET :: "string option"
  env_FRONTEND_URL :: "string option"

text \<open>
  The gateway's event envelope
  \<^verbatim>\<open>{data: {attributes: {type, data: {id, attributes: {metadata, payments, payment_intent}}}}}\<close>,
  read with optional chaining: a part that is absent is \<open>None\<close>. The metadata values are
  the decimal strings that checkout creation wrote (\<^verbatim>\<open>payment_id.toString()\<close>); they are
  modelled by the numbers they denote.
\<close>

record metadata =
  md_payment_id :: "nat option"
  md_enrollment_id :: "nat option"
  md_payment_category :: "string option"

record checkout_attributes =
  ca_metadata :: "metadata option"
  ca_source_type :: "string option"
  ca_intent_status :: "string option"

record checkout_session =
  cs_id :: string
  cs_attributes :: "checkout_attributes option"

record event =
  ev_type :: "string option"
  ev_data :: "checkout_session option"

text \<open>
  A payment is read by its id with \<^verbatim>\<open>.single()\<close>. Where the handler joins it with its
  account (\<^verbatim>\<open>accounts:account_id (...)\<close>), the account is \<^verbatim>\<open>null\<close> when no account row
  has the payment's account id.
\<close>

definition payment_by_id :: "nat \<Rightarrow> ledger \<Rightarrow> payment option" where
  "payment_by_id payment_id st = single (filter (\<lambda>p. pay_id p = payment_id) (payments st))"

definition account_of :: "payment \<Rightarrow> ledger \<Rightarrow> account option" where
  "account_of p st = single (filter (\<lambda>a. acc_id a = pay_account_id p) (accounts st))"

section \<open>Payment completion (\<^verbatim>\<open>src/routes/billing.js\<close>, lines 8-190 and 452-490)\<close>

text \<open>
  \<^verbatim>\<open>process_payment_transaction\<close> is a stored procedure of the database, called through
  \<^verbatim>\<open>supabase.rpc\<close> with the payment id, account id, enrollment id, amount and payment type.
  Its body is not part of the JavaScript sources, so it is a parameter of the model: it
  either fails with a message, leaving the ledger as it was (the procedure runs in one
  database transaction), or yields the ledger it has written.
\<close>

type_synonym rpc = "nat \<Rightarrow> nat \<Rightarrow> nat option \<Rightarrow> rat \<Rightarrow> string \<Rightarrow> ledger \<Rightarrow> string + ledger"

record completion =
  success :: bool
  already_processed :: "bool option"

definition createEnrollmentSubjects :: "nat \<Rightarrow> enrollment \<Rightarrow> ledger \<Rightarrow> ledger" where
  "createEnrollmentSubjects enrollment_id enrollmentDetails st =
     (if filter (\<lambda>s. es_enrollment_id s = enrollment_id) (enrollment_subjects st) \<noteq> [] then st
      else
        (case single (filter (\<lambda>s. stu_id s = enr_student_id enrollmentDetails) (students st)) of
           None \<Rightarrow> st
         | Some student \<Rightarrow>
             (let subjects =
                    filter (\<lambda>c. csub_program_id c = enr_program_id enrollmentDetails
                                \<and> csub_semester_id c = enr_semester_id enrollmentDetails
                                \<and> csub_year_level c = stu_year_level student)
                           (course_subjects st)
              in if subjects = [] then st
                 else st\<lparr>enrollment_subjects :=
                           enrollment_subjects st @
                           map (\<lambda>c. \<lparr>es_enrollment_id = enrollment_id,
                                      es_subject_id = csub_subject_id c,
                                      es_status = ''Enrolled''\<rparr>)
                               subjects\<rparr>)))"

definition processPaymentCompletion ::
  "rpc \<Rightarrow> nat \<Rightarrow> payment \<Rightarrow> ledger \<Rightarrow> (string + completion) \<times> ledger" where
  "processPaymentCompletion process_payment_transaction payment_id p st =
     (if pay_status p = ''Completed''
      then (Inr \<lparr>success = True, already_processed = Some True\<rparr>, st)
      else
        (case process_payment_transaction payment_id (pay_account_id p) (pay_enrollment_id p)
                (pay_amount p) (pay_type p) st of
           Inl txError \<Rightarrow> (Inl txError, st)
         | Inr st1 \<Rightarrow>
             (let enrollmentDetails =
                    single (filter (\<lambda>e. Some (enr_id e) = pay_enrollment_id p) (enrollments st1));
                  st2 =
                    (case enrollmentDetails of
                       None \<Rightarrow> st1
                     | Some d \<Rightarrow>
                         if enr_status d = ''Enrolled''
                            \<and> (pay_type p = ''full_payment'' \<or> pay_type p = ''downpayment'')
                         then createEnrollmentSubjects (enr_id d) d st1
                         else st1)
              in (Inr \<lparr>success = True, already_processed = None\<rparr>, st2))))"

definition handleEnrollmentPayment :: "rpc \<Rightarrow> metadata \<Rightarrow> ledger \<Rightarrow> (string + unit) \<times> ledger" where
  "handleEnrollmentPayment process_payment_transaction md st =
     (case md_payment_id md of
        None \<Rightarrow> (Inl ''Invalid webhook metadata'', st)
      | Some payment_id \<Rightarrow>
          if payment_id = 0 then (Inl ''Invalid webhook metadata'', st)
          else
            (case payment_by_id payment_id st of
               None \<Rightarrow> (Inl ''Payment not found'', st)
             | Some p \<Rightarrow>
                 (case processPaymentCompletion process_payment_transaction payment_id p st of
                    (Inl e, st') \<Rightarrow> (Inl e, st')
                  | (Inr _, st') \<Rightarrow> (Inr (), st'))))"

section \<open>Payments router (\<^verbatim>\<open>src/routes/payments.js\<close>)\<close>

text \<open>
  \<^verbatim>\<open>PAYMONGO_ENABLED = process.env.PAYMONGO_SECRET_KEY &&
       process.env.PAYMONGO_PUBLIC_KEY !== 'offline'\<close>, used as a condition.
\<close>

definition payments_PAYMONGO_ENABLED :: "env \<Rightarrow> bool" where
  "payments_PAYMONGO_ENABLED e =
     (truthy_str (env_PAYMONGO_SECRET_KEY e) \<and> env_PAYMONGO_PUBLIC_KEY e \<noteq> Some ''offline'')"

text \<open>
  \<^verbatim>\<open>update({status:'paid', paid_at, payment_id}).eq('enrollment_id', e).eq('status','pending')
     .order('due_date', {ascending: true}).limit(1)\<close>. Which rows the store writes for an
  update that carries an order and a limit is the store's contract: the JavaScript names no
  key, and nothing in the sources picks the row. The contract is a parameter of the model:
  from the enrollment id and the table it tells which rows are written. The handler sets
  the same three columns in each of them.
\<close>

type_synonym limited_update = "nat \<Rightarrow> payment_installment list \<Rightarrow> payment_installment \<Rightarrow> bool"

definition pay_installment :: "limited_update \<Rightarrow> timestamp \<Rightarrow> nat \<Rightarrow> nat \<Rightarrow> ledger \<Rightarrow> ledger" where
  "pay_installment written now payment_id e st =
     st\<lparr>payment_installments :=
          map (\<lambda>r. if written e (payment_installments st) r
                    then r\<lparr>inst_status := ''paid'', inst_paid_at := Some now,
                           inst_payment_id := Some payment_id\<rparr>
                    else r)
              (payment_installments st)\<rparr>"

text \<open>
  \<^verbatim>\<open>update({is_paid: true, paid_at}).eq('enrollment_id', e).eq('is_paid', false)\<close>; a
  \<^verbatim>\<open>null\<close> enrollment id selects no row.
\<close>

definition pay_enrollment_fees :: "timestamp \<Rightarrow> nat option \<Rightarrow> ledger \<Rightarrow> ledger" where
  "pay_enrollment_fees now e st =
     st\<lparr>enrollment_fees :=
          map (\<lambda>f. if Some (fee_enrollment_id f) = e \<and> \<not> fee_is_paid f
                    then f\<lparr>fee_is_paid := True, fee_paid_at := Some now\<rparr>
                    else f)
              (enrollment_fees st)\<rparr>"

text \<open>
  "Process based on payment type", the block that the mock completion
  (\<^verbatim>\<open>payments.js\<close> lines 487-522) and the webhook (lines 676-711) both carry, word for word.
\<close>

definition process_by_type ::
  "limited_update \<Rightarrow> timestamp \<Rightarrow> nat \<Rightarrow> payment \<Rightarrow> account \<Rightarrow> ledger \<Rightarrow> ledger" where
  "process_by_type written now payment_id p acc st =
     (let amount = pay_amount p;
          previous_balance = acc_total_balance acc
      in if pay_type p = ''enrollment'' then pay_enrollment_fees now (pay_enrollment_id p) st
         else if pay_type p = ''balance'' \<or> pay_type p = ''monthly'' then
           (let new_balance = max 0 (previous_balance - amount);
                st1 = st\<lparr>accounts :=
                           map (\<lambda>a. if acc_id a = acc_id acc
                                     then a\<lparr>acc_total_balance := new_balance,
                                            acc_last_updated := Some now\<rparr>
                                     else a)
                               (accounts st)\<rparr>
            in case pay_enrollment_id p of
                 None \<Rightarrow> st1
               | Some e \<Rightarrow>
                   if pay_type p = ''monthly'' \<and> e \<noteq> 0
                   then pay_installment written now payment_id e st1
                   else st1)
         else st)"

text \<open>
  \<^verbatim>\<open>POST /mock-complete/:payment_id\<close> (lines 426-573). The body's \<^verbatim>\<open>success\<close> and
  \<^verbatim>\<open>payment_method\<close> have defaults; \<^verbatim>\<open>payment.accounts.total_balance\<close> on a payment
  without account row throws, which the handler's \<^verbatim>\<open>catch\<close> answers with 500.
\<close>

record mock_body =
  mb_success :: "bool option"
  mb_payment_method :: "string option"
  mb_completed_by :: "nat option"

definition mock_complete ::
  "env \<Rightarrow> limited_update \<Rightarrow> timestamp \<Rightarrow> nat \<Rightarrow> mock_body \<Rightarrow> ledger \<Rightarrow> reply \<times> ledger" where
  "mock_complete e written now payment_id body st =
     (if payments_PAYMONGO_ENABLED e
      then (Json 403 [(''error'', JS ''Mock payments not allowed in production mode'')], st)
      else
        (let success = (case mb_success body of None \<Rightarrow> True | Some b \<Rightarrow> b);
             payment_method = (case mb_payment_method body of None \<Rightarrow> ''mock_payment'' | Some m \<Rightarrow> m);
             completed_by = mb_completed_by body
         in case payment_by_id payment_id st of
              None \<Rightarrow> (Json 404 [(''error'', JS ''Payment not found'')], st)
            | Some p \<Rightarrow>
                if success then
                  (case account_of p st of
                     None \<Rightarrow> (Json 500 [(''error'', JS ''Internal server error'')], st)
                   | Some acc \<Rightarrow>
                       (let amount = pay_amount p;
                            previous_balance = acc_total_balance acc;
                            st1 = st\<lparr>payments :=
                                       map (\<lambda>r. if pay_id r = payment_id
                                                 then r\<lparr>pay_status := ''Completed'',
                                                        pay_date := now,
                                                        pay_reference_no := Some (MockRef payment_id now),
                                                        pay_method := Some payment_method\<rparr>
                                                 else r)
                                           (payments st)\<rparr>;
                            st2 = st1\<lparr>payment_transactions :=
                                        map (\<lambda>t. if ptx_payment_id t = payment_id
                                                  then t\<lparr>ptx_status := ''paid'',
                                                         ptx_paid_at := Some now,
                                                         ptx_payment_method := Some payment_method\<rparr>
                                                  else t)
                                            (payment_transactions st1)\<rparr>;
                            st3 = process_by_type written now payment_id p acc st2;
                            st4 = st3\<lparr>account_transactions :=
                                        account_transactions st3 @
                                        [\<lparr>atx_account_id = acc_id acc,
                                          atx_payment_id = payment_id,
                                          atx_type = ''payment'',
                                          atx_amount = amount,
                                          atx_balance_before = previous_balance,
                                          atx_balance_after = max 0 (previous_balance - amount),
                                          atx_description =
                                            ''Mock Payment - '' @ pay_type p @ '' via '' @ payment_method,
                                          atx_created_by =
                                            (if truthy_id completed_by then completed_by
                                             else pay_created_by p),
                                          atx_payment_date = now\<rparr>]\<rparr>
                        in (Json 200 [(''success'', JB True),
                                      (''message'', JS ''Mock payment completed successfully''),
                                      (''payment_id'', JI payment_id),
                                      (''new_balance'', JN (max 0 (previous_balance - amount))),
                                      (''payment_method'', JS payment_method)],
                            st4)))
                else
                  (let st1 = st\<lparr>payments :=
                                  map (\<lambda>r. if pay_id r = payment_id
                                            then r\<lparr>pay_status := ''Failed'',
                                                   pay_method := Some payment_method\<rparr>
                                            else r)
                                      (payments st)\<rparr>;
                       st2 = st1\<lparr>payment_transactions :=
                                   map (\<lambda>t. if ptx_payment_id t = payment_id
                                             then t\<lparr>ptx_status := ''failed'',
                                                    ptx_payment_method := Some payment_method\<rparr>
                                             else t)
                                       (payment_transactions st1)\<rparr>
                   in (Json 200 [(''success'', JB False), (''message'', JS ''Mock payment failed'')],
                       st2))))"

text \<open>
  \<^verbatim>\<open>POST /webhook\<close> (lines 578-743). The request carries its headers and the JSON body
  parsed by the application's \<^verbatim>\<open>express.json()\<close>. A \<^verbatim>\<open>paid\<close> event without
  \<^verbatim>\<open>data\<close> throws on \<^verbatim>\<open>checkoutSession.attributes\<close>; an \<^verbatim>\<open>undefined\<close>
  \<^verbatim>\<open>paymongo_status\<close> is dropped from the update, which leaves the column as it was. The
  \<^verbatim>\<open>webhook_data\<close> column, a copy of the event, is not kept in the model.
\<close>

record request =
  req_headers :: "(string \<times> string) list"
  req_body :: event

definition webhook ::
  "env \<Rightarrow> limited_update \<Rightarrow> rpc \<Rightarrow> timestamp \<Rightarrow> request \<Rightarrow> ledger \<Rightarrow> reply \<times> ledger" where
  "webhook e written process_payment_transaction now req st =
     (let event = req_body req;
          eventType = ev_type event;
          eventData = ev_data event
      in if eventType = Some ''checkout_session.payment.paid'' then
           (case eventData of
              None \<Rightarrow> (Json 500 [(''error'', JS ''Webhook processing failed'')], st)
            | Some checkoutSession \<Rightarrow>
                (let metadata = (case cs_attributes checkoutSession of
                                   None \<Rightarrow> None | Some a \<Rightarrow> ca_metadata a);
                     source_type = (case cs_attributes checkoutSession of
                                      None \<Rightarrow> None | Some a \<Rightarrow> ca_source_type a);
                     intent_status = (case cs_attributes checkoutSession of
                                        None \<Rightarrow> None | Some a \<Rightarrow> ca_intent_status a);
                     payment_method = (case source_type of
                                         None \<Rightarrow> ''card''
                                       | Some s \<Rightarrow> if s = [] then ''card'' else s)
                 in case metadata of
                      None \<Rightarrow> (Json 400 [(''error'', JS ''Missing payment_id'')], st)
                    | Some md \<Rightarrow>
                    (case md_payment_id md of
                      None \<Rightarrow> (Json 400 [(''error'', JS ''Missing payment_id'')], st)
                    | Some payment_id \<Rightarrow>
                        if md_enrollment_id md \<noteq> None
                           \<and> md_payment_category md = Some ''enrollment''
                        then
                          (case handleEnrollmentPayment process_payment_transaction md st of
                             (Inl err, st') \<Rightarrow>
                               (Json 500 [(''error'', JS ''Webhook processing failed'')], st')
                           | (Inr _, st') \<Rightarrow>
                               (Json 200 [(''received'', JB True), (''type'', JS ''enrollment'')], st'))
                        else
                          (case payment_by_id payment_id st of
                             None \<Rightarrow> (Json 404 [(''error'', JS ''Payment not found'')], st)
                           | Some p \<Rightarrow>
                               (case account_of p st of
                                  None \<Rightarrow>
                                    (Json 500 [(''error'', JS ''Webhook processing failed'')], st)
                                | Some acc \<Rightarrow>
                                    (let amount = pay_amount p;
                                         previous_balance = acc_total_balance acc;
                                         st1 = st\<lparr>payments :=
                                                 map (\<lambda>r. if pay_id r = payment_id
                                                           then r\<lparr>pay_status := ''Completed'',
                                                                  pay_date := now,
                                                                  pay_reference_no :=
                                                                    Some (GatewayRef (cs_id checkoutSession)),
                                                                  pay_method := Some payment_method\<rparr>
                                                           else r)
                                                     (payments st)\<rparr>;
                                         st2 = st1\<lparr>payment_transactions :=
                                                 map (\<lambda>t. if ptx_payment_id t = payment_id
                                                           then t\<lparr>ptx_status := ''paid'',
                                                                  ptx_paid_at := Some now,
                                                                  ptx_payment_method := Some payment_method,
                                                                  ptx_paymongo_status :=
                                                                    (case intent_status of
                                                                       None \<Rightarrow> ptx_paymongo_status t
                                                                     | Some s \<Rightarrow> Some s)\<rparr>
                                                           else t)
                                                     (payment_transactions st1)\<rparr>;
                                         st3 = process_by_type written now payment_id p acc st2;
                                         st4 = st3\<lparr>account_transactions :=
                                                 account_transactions st3 @
                                                 [\<lparr>atx_account_id = acc_id acc,
                                                   atx_payment_id = payment_id,
                                                   atx_type = ''payment'',
                                                   atx_amount = amount,
                                                   atx_balance_before = previous_balance,
                                                   atx_balance_after = max 0 (previous_balance - amount),
                                                   atx_description =
                                                     ''Payment via '' @ payment_method @ '' - '' @ pay_type p,
                                                   atx_created_by = pay_created_by p,
                                                   atx_payment_date = now\<rparr>]\<rparr>
                                     in (Json 200 [(''success'', JB True),
                                                   (''message'', JS ''Webhook processed'')],
                                         st4)))))))
         else (Json 200 [(''success'', JB True), (''message'', JS ''Event noted'')], st))"

text \<open>\<^verbatim>\<open>POST /cancel/:payment_id\<close> (lines 876-915).\<close>

definition cancel :: "nat \<Rightarrow> ledger \<Rightarrow> reply \<times> ledger" where
  "cancel payment_id st =
     (case payment_by_id payment_id st of
        None \<Rightarrow> (Json 404 [(''error'', JS ''Payment not found'')], st)
      | Some p \<Rightarrow>
          if pay_status p \<noteq> ''Pending''
          then (Json 400 [(''error'', JS (''Cannot cancel payment with status: '' @ pay_status p))], st)
          else
            (let st1 = st\<lparr>payments :=
                            map (\<lambda>r. if pay_id r = payment_id
                                      then r\<lparr>pay_status := ''Cancelled''\<rparr> else r)
                                (payments st)\<rparr>;
                 st2 = st1\<lparr>payment_transactions :=
                             map (\<lambda>t. if ptx_payment_id t = payment_id
                                       then t\<lparr>ptx_status := ''cancelled''\<rparr> else t)
                                 (payment_transactions st1)\<rparr>
             in (Json 200 [(''success'', JB True),
                           (''message'', JS ''Payment cancelled successfully'')],
                 st2)))"

section \<open>Billing router (\<^verbatim>\<open>src/routes/billing.js\<close>)\<close>

definition billing_PAYMONGO_ENABLED :: "env \<Rightarrow> bool" where
  "billing_PAYMONGO_ENABLED e = (env_PAYMONGO_ENABLED e = Some ''true'')"

definition FRONTEND_URL :: "env \<Rightarrow> string" where
  "FRONTEND_URL e =
     (case env_FRONTEND_URL e of
        None \<Rightarrow> ''http://localhost:3000''
      | Some u \<Rightarrow> if u = [] then ''http://localhost:3000'' else u)"

subsection \<open>Success and cancel callbacks (lines 871-952)\<close>

text \<open>
  \<^verbatim>\<open>GET /payment/success\<close>. On a payment that is already \<^verbatim>\<open>Completed\<close> the handler
  redirects and, having no \<^verbatim>\<open>return\<close> there, goes on to call
  \<^verbatim>\<open>processPaymentCompletion\<close>; the later redirects throw on a reply that is already sent,
  so the reply of the model is the first one.
\<close>

definition payment_success :: "env \<Rightarrow> rpc \<Rightarrow> nat option \<Rightarrow> ledger \<Rightarrow> reply \<times> ledger" where
  "payment_success e process_payment_transaction payment_id st =
     (case payment_id of
        None \<Rightarrow> (Send 400 ''Missing payment_id'', st)
      | Some pid \<Rightarrow>
          (case payment_by_id pid st of
             None \<Rightarrow>
               (Redirect (FRONTEND_URL e @ ''/student/payment?status=error&message=Payment not found'')
                  None, st)
           | Some p \<Rightarrow>
               (case processPaymentCompletion process_payment_transaction pid p st of
                  (Inl err, st') \<Rightarrow>
                    (if pay_status p = ''Completed''
                     then Redirect (FRONTEND_URL e @ ''/payment.html?status=success'') (Some pid)
                     else Redirect
                            (FRONTEND_URL e @ ''/student/payment?status=error&message=Processing failed'')
                            None,
                     st')
                | (Inr _, st') \<Rightarrow>
                    (if pay_status p = ''Completed''
                     then Redirect (FRONTEND_URL e @ ''/payment.html?status=success'') (Some pid)
                     else Redirect (FRONTEND_URL e @ ''/student/payment?status=success'') (Some pid),
                     st'))))"

text \<open>\<^verbatim>\<open>GET /payment/cancel\<close>: the updates carry no condition on the payment's status.\<close>

definition payment_cancel :: "env \<Rightarrow> nat option \<Rightarrow> ledger \<Rightarrow> reply \<times> ledger" where
  "payment_cancel e payment_id st =
     (case payment_id of
        None \<Rightarrow> (Redirect (FRONTEND_URL e @ ''/student/payment?status=cancelled'') None, st)
      | Some pid \<Rightarrow>
          (let st1 = st\<lparr>payments :=
                          map (\<lambda>r. if pay_id r = pid then r\<lparr>pay_status := ''Cancelled''\<rparr> else r)
                              (payments st)\<rparr>;
               st2 = st1\<lparr>payment_transactions :=
                           map (\<lambda>t. if ptx_payment_id t = pid
                                     then t\<lparr>ptx_status := ''cancelled''\<rparr> else t)
                               (payment_transactions st1)\<rparr>
           in (Redirect (FRONTEND_URL e @ ''/student/payment?status=cancelled'') None, st2)))"

subsection \<open>Gateway webhook (lines 957-1068)\<close>

text \<open>
  The body reaches the handler as a \<^verbatim>\<open>Buffer\<close> where a raw parser read it, and as the
  object that \<^verbatim>\<open>express.json()\<close> built where the router is mounted without one.
  \<^verbatim>\<open>req.body.toString("utf8")\<close> is the text of the former and \<^verbatim>\<open>"[object Object]"\<close> for
  the latter. The handler parses the body only when it is a string, which neither is: a
  \<^verbatim>\<open>Buffer\<close> has no \<^verbatim>\<open>data\<close> property, so its event type is \<^verbatim>\<open>undefined\<close>.

  \<^verbatim>\<open>crypto.createHmac("sha256", secret).update(rawBody).digest("hex")\<close> belongs to the
  runtime's library; it is a parameter of the model.
\<close>

datatype body = Raw string | Parsed event

record raw_request =
  rq_headers :: "(string \<times> string) list"
  rq_body :: body

fun toString :: "body \<Rightarrow> string" where
  "toString (Raw s) = s"
| "toString (Parsed _) = ''[object Object]''"

fun split_on :: "char \<Rightarrow> string \<Rightarrow> string list" where
  "split_on c [] = [[]]"
| "split_on c (x # xs) =
     (if x = c then [] # split_on c xs
      else (case split_on c xs of [] \<Rightarrow> [[x]] | p # ps \<Rightarrow> (x # p) # ps))"

text \<open>
  \<^verbatim>\<open>signature.split(",").find((part) => part.startsWith("s="))?.split("=")[1]\<close>
\<close>

definition actualSignature :: "string \<Rightarrow> string option" where
  "actualSignature signature =
     (case find (\<lambda>part. take 2 part = ''s='') (split_on CHR '','' signature) of
        None \<Rightarrow> None
      | Some part \<Rightarrow> (case split_on CHR ''='' part of _ # v # _ \<Rightarrow> Some v | _ \<Rightarrow> None))"

definition verify_signature :: "env \<Rightarrow> (string \<Rightarrow> string \<Rightarrow> string) \<Rightarrow> raw_request \<Rightarrow> reply option" where
  "verify_signature e hmac_sha256_hex req =
     (case env_PAYMONGO_WEBHOOK_SECRET e of
        None \<Rightarrow> None
      | Some secret \<Rightarrow>
          if billing_PAYMONGO_ENABLED e \<and> secret \<noteq> [] then
            (case map_of (rq_headers req) ''paymongo-signature'' of
               None \<Rightarrow> Some (Json 401 [(''error'', JS ''Unauthorized - missing signature'')])
             | Some signature \<Rightarrow>
                 if signature = []
                 then Some (Json 401 [(''error'', JS ''Unauthorized - missing signature'')])
                 else
                   (let rawBody = toString (rq_body req);
                        computedSignature = hmac_sha256_hex secret rawBody
                    in case actualSignature signature of
                         None \<Rightarrow> Some (Json 401 [(''error'', JS ''Unauthorized - invalid signature'')])
                       | Some a \<Rightarrow>
                           if a = [] then
                             Some (Json 401 [(''error'', JS ''Unauthorized - invalid signature'')])
                           else if a \<noteq> computedSignature then
                             Some (Json 401 [(''error'', JS ''Unauthorized - invalid signature'')])
                           else None))
          else None)"

definition webhook_paymongo ::
  "env \<Rightarrow> (string \<Rightarrow> string \<Rightarrow> string) \<Rightarrow> rpc \<Rightarrow> raw_request \<Rightarrow> ledger \<Rightarrow> reply \<times> ledger" where
  "webhook_paymongo e hmac_sha256_hex process_payment_transaction req st =
     (case verify_signature e hmac_sha256_hex req of
        Some rejection \<Rightarrow> (rejection, st)
      | None \<Rightarrow>
          (case rq_body req of
             Raw _ \<Rightarrow> (Json 200 [(''received'', JB True)], st)
           | Parsed event \<Rightarrow>
               if ev_type event = Some ''checkout_session.payment.paid'' then
                 (let metadata =
                        (case ev_data event of
                           None \<Rightarrow> None
                         | Some d \<Rightarrow> (case cs_attributes d of None \<Rightarrow> None | Some a \<Rightarrow> ca_metadata a))
                  in if (case metadata of None \<Rightarrow> None | Some m \<Rightarrow> md_payment_category m)
                        \<noteq> Some ''enrollment''
                     then (Json 200 [(''received'', JB True), (''skipped'', JB True)], st)
                     else
                       (case (case metadata of None \<Rightarrow> None | Some m \<Rightarrow> md_payment_id m) of
                          None \<Rightarrow> (Json 400 [(''error'', JS ''Invalid webhook data'')], st)
                        | Some payment_id \<Rightarrow>
                            if payment_id = 0
                            then (Json 400 [(''error'', JS ''Invalid webhook data'')], st)
                            else
                              (case payment_by_id payment_id st of
                                 None \<Rightarrow> (Json 404 [(''error'', JS ''Payment not found'')], st)
                               | Some p \<Rightarrow>
                                   (case processPaymentCompletion process_payment_transaction
                                           payment_id p st of
                                      (Inl err, st') \<Rightarrow>
                                        (Json 500 [(''error'', JS ''Webhook processing failed'')], st')
                                    | (Inr _, st') \<Rightarrow> (Json 200 [(''received'', JB True)], st')))))
               else (Json 200 [(''received'', JB True)], st)))"

subsection \<open>Billing generation (lines 195-447 and 511-544)\<close>

text \<open>\<^verbatim>\<open>Math.round(x * 100) / 100\<close>; \<^verbatim>\<open>Math.round\<close> rounds a half towards positive infinity.\<close>

definition round2 :: "rat \<Rightarrow> rat" where
  "round2 x = of_int \<lfloor>x * 100 + 1 / 2\<rfloor> / 100"

text \<open>
  \<^verbatim>\<open>parseFloat(v) || 0\<close> and \<^verbatim>\<open>parseInt(v) || 4\<close> on a numeric column: \<^verbatim>\<open>null\<close> parses
  to \<^verbatim>\<open>NaN\<close>, and \<^verbatim>\<open>NaN\<close> and 0 are both falsy.
\<close>

definition parseFloat_or_0 :: "rat option \<Rightarrow> rat" where
  "parseFloat_or_0 v = (case v of None \<Rightarrow> 0 | Some x \<Rightarrow> x)"

definition parseInt_or_4 :: "int option \<Rightarrow> int" where
  "parseInt_or_4 v = (case v of None \<Rightarrow> 4 | Some n \<Rightarrow> if n = 0 then 4 else n)"

text \<open>
  Calendar arithmetic of \<^verbatim>\<open>dueDate.setMonth(dueDate.getMonth() + i)\<close>: the month moves
  by \<open>i\<close>, the day of the month is kept, and a day past the end of the month reached
  runs over into the following months. \<^verbatim>\<open>setMonth\<close> works on the fields of the
  server's local time, so the dates here are local calendar dates.
\<close>

definition leap_year :: "nat \<Rightarrow> bool" where
  "leap_year y = (if y mod 400 = 0 then True else if y mod 100 = 0 then False else y mod 4 = 0)"

definition days_in_month :: "nat \<Rightarrow> nat \<Rightarrow> nat" where
  "days_in_month y m =
     (if m = 2 then (if leap_year y then 29 else 28)
      else if m = 4 \<or> m = 6 \<or> m = 9 \<or> m = 11 then 30
      else 31)"

function overflow_day :: "nat \<Rightarrow> nat \<Rightarrow> nat \<Rightarrow> date" where
  "overflow_day y m d =
     (if d \<le> days_in_month y m then (y, m, d)
      else if m = 12 then overflow_day (Suc y) 1 (d - days_in_month y m)
      else overflow_day y (Suc m) (d - days_in_month y m))"
  by pat_completeness auto
termination
  by (relation "measure (\<lambda>(y, m, d). d)") (auto simp: days_in_month_def)

declare overflow_day.simps [simp del]

definition setMonth_plus :: "date \<Rightarrow> nat \<Rightarrow> date" where
  "setMonth_plus currentDate i =
     (case currentDate of
        (y, m, d) \<Rightarrow> (let k = (m - 1) + i in overflow_day (y + k div 12) (k mod 12 + 1) d))"

text \<open>
  Modelled from the spec: the stored procedure \<^verbatim>\<open>initialize_account_balance\<close>, whose body
  is not among the JavaScript sources. The spec's billing generator "atomically
  creates/locates the student's Account and sets total_balance = totalAmount"; the call
  returns the account id.
\<close>

definition next_id :: "nat list \<Rightarrow> nat" where
  "next_id ids = Suc (fold max ids 0)"

definition initialize_account_balance :: "nat \<Rightarrow> string \<Rightarrow> nat \<Rightarrow> rat \<Rightarrow> ledger \<Rightarrow> nat \<times> ledger" where
  "initialize_account_balance p_enrollment_id p_scheme_name p_student_id p_total_amount st =
     (case filter (\<lambda>a. acc_student_id a = p_student_id) (accounts st) of
        [] \<Rightarrow>
          (let new_id = next_id (map acc_id (accounts st))
           in (new_id,
               st\<lparr>accounts := accounts st @
                      [\<lparr>acc_id = new_id, acc_student_id = p_student_id,
                        acc_total_balance = p_total_amount, acc_last_updated = None\<rparr>]\<rparr>))
      | a # _ \<Rightarrow>
          (acc_id a,
           st\<lparr>accounts :=
                map (\<lambda>r. if acc_student_id r = p_student_id
                          then r\<lparr>acc_total_balance := p_total_amount\<rparr> else r)
                    (accounts st)\<rparr>))"

text \<open>
  Failures of the store that \<^verbatim>\<open>generateBilling\<close> handles: an error of the account
  procedure (with its message), of a fee insert, of the installments insert. Reads succeed.
\<close>

record store_faults =
  account_rpc_error :: "string option"
  fee_insert_error :: bool
  installment_insert_error :: bool

datatype plan =
    FullPaymentPlan nat
  | InstallmentPlan rat nat rat int "payment_installment list"

text \<open>
  The value \<^verbatim>\<open>generateBilling\<close> returns, without its descriptive texts and its
  \<^verbatim>\<open>generated_at\<close> stamp. \<open>FullPaymentPlan fee_id\<close>;
  \<open>InstallmentPlan downpayment downpayment_fee_id monthly_payment number_of_months
  installments\<close>. \<open>gb_warned\<close> records the call of \<^verbatim>\<open>logger.warn\<close> on installment
  amounts that do not match the total.
\<close>

record billing =
  gb_enrollment_id :: nat
  gb_account_id :: nat
  gb_scheme_name :: string
  gb_scheme_type :: string
  gb_total_amount :: rat
  gb_discount :: rat
  gb_plan :: plan
  gb_generated_by :: "nat option"
  gb_warned :: bool

text \<open>
  What \<^verbatim>\<open>generateBilling\<close> takes from the machine it runs on:
  \<^item> \<open>host_today\<close>, the local calendar date of \<^verbatim>\<open>new Date()\<close>;
  \<^item> \<open>host_toISODate\<close>, which gives for a local calendar date, taken at the local time
    of day of the call, the date that \<^verbatim>\<open>toISOString().split("T")[0]\<close> prints: the UTC
    date of that instant. It is the identity on a server whose clock is UTC, and can be a
    day off elsewhere;
  \<^item> \<open>host_exceeds_cent\<close>, the outcome of \<^verbatim>\<open>Math.abs(a - b) > 0.01\<close> on doubles for
    two sums in whole cents that are exactly one cent apart. There the doubles decide
    either way (9000.01 against 9000 gives \<^verbatim>\<open>true\<close>), and the model leaves it open; for
    equal sums, and for sums two cents or more apart, the comparison on doubles agrees with
    the exact one.
\<close>

record host =
  host_today :: date
  host_toISODate :: "date \<Rightarrow> date"
  host_exceeds_cent :: "rat \<Rightarrow> rat \<Rightarrow> bool"

definition new_installments ::
  "nat \<Rightarrow> nat \<Rightarrow> rat \<Rightarrow> host \<Rightarrow> int \<Rightarrow> payment_installment list" where
  "new_installments last_id enrollment_id monthlyPayment h months =
     map (\<lambda>i. \<lparr>inst_id = last_id + nat i,
                inst_enrollment_id = enrollment_id,
                inst_number = i,
                inst_amount = monthlyPayment,
                inst_due_date = host_toISODate h (setMonth_plus (host_today h) (nat i)),
                inst_status = ''pending'',
                inst_paid_at = None,
                inst_payment_id = None\<rparr>)
         [1..months]"

definition generateBilling ::
  "store_faults \<Rightarrow> host \<Rightarrow> nat \<Rightarrow> nat option \<Rightarrow> ledger \<Rightarrow> (string + billing) \<times> ledger" where
  "generateBilling faults h enrollment_id created_by st =
     (case single (filter (\<lambda>e. enr_id e = enrollment_id) (enrollments st)) of
        None \<Rightarrow> (Inl ''Enrollment not found'', st)
      | Some enrollment \<Rightarrow>
      (case single (filter (\<lambda>s. Some (sch_id s) = enr_scheme_id enrollment) (tuition_schemes st)) of
        None \<Rightarrow> (Inl ''No tuition scheme found for this enrollment'', st)
      | Some scheme \<Rightarrow>
          if \<not> (filter (\<lambda>f. fee_enrollment_id f = enrollment_id) (enrollment_fees st) = []
                \<and> filter (\<lambda>i. inst_enrollment_id i = enrollment_id) (payment_installments st) = [])
          then (Inl ''Billing already generated for this enrollment'', st)
          else
            (let baseAmount = sch_amount scheme;
                 discount = parseFloat_or_0 (sch_discount scheme);
                 totalAmount = round2 (baseAmount - discount)
             in if totalAmount \<le> 0 then (Inl ''Invalid billing amount'', st)
                else
                  (case account_rpc_error faults of
                     Some accountError \<Rightarrow> (Inl accountError, st)
                   | None \<Rightarrow>
                       (case initialize_account_balance enrollment_id (sch_name scheme)
                               (enr_student_id enrollment) totalAmount st of
                          (account_id, st1) \<Rightarrow>
                            if sch_type scheme = ''full_payment'' then
                              (if fee_insert_error faults
                               then (Inl ''Failed to generate billing'', st1)
                               else
                                 (let fee = \<lparr>fee_id = next_id (map fee_id (enrollment_fees st1)),
                                             fee_enrollment_id = enrollment_id,
                                             fee_type = ''Tuition'',
                                             fee_description = ''Full Payment - '' @ sch_name scheme,
                                             fee_amount = totalAmount,
                                             fee_is_paid = False,
                                             fee_paid_at = None\<rparr>;
                                      st2 = st1\<lparr>enrollment_fees := enrollment_fees st1 @ [fee]\<rparr>
                                  in (Inr \<lparr>gb_enrollment_id = enrollment_id,
                                           gb_account_id = account_id,
                                           gb_scheme_name = sch_name scheme,
                                           gb_scheme_type = sch_type scheme,
                                           gb_total_amount = totalAmount,
                                           gb_discount = discount,
                                           gb_plan = FullPaymentPlan (fee_id fee),
                                           gb_generated_by = created_by,
                                           gb_warned = False\<rparr>,
                                      st2)))
                            else if sch_type scheme = ''installment'' then
                              (let downpayment = parseFloat_or_0 (sch_downpayment scheme);
                                   monthlyPayment = parseFloat_or_0 (sch_monthly_payment scheme);
                                   months = parseInt_or_4 (sch_months scheme);
                                   totalInstallments =
                                     round2 (downpayment + monthlyPayment * of_int months);
                                   warned =
                                     (if \<bar>totalInstallments - totalAmount\<bar> = 1 / 100
                                      then host_exceeds_cent h totalInstallments totalAmount
                                      else \<bar>totalInstallments - totalAmount\<bar> > 1 / 100)
                               in if fee_insert_error faults
                                  then (Inl ''Failed to generate downpayment'', st1)
                                  else
                                    (let downpaymentFee =
                                           \<lparr>fee_id = next_id (map fee_id (enrollment_fees st1)),
                                            fee_enrollment_id = enrollment_id,
                                            fee_type = ''Downpayment'',
                                            fee_description = ''Downpayment - '' @ sch_name scheme,
                                            fee_amount = downpayment,
                                            fee_is_paid = False,
                                            fee_paid_at = None\<rparr>;
                                         st2 = st1\<lparr>enrollment_fees :=
                                                    enrollment_fees st1 @ [downpaymentFee]\<rparr>;
                                         installments =
                                           new_installments
                                             (fold max (map inst_id (payment_installments st2)) 0)
                                             enrollment_id monthlyPayment h months
                                     in if installment_insert_error faults
                                        then (Inl ''Failed to generate installments'',
                                              st2\<lparr>enrollment_fees :=
                                                    filter (\<lambda>f. fee_id f \<noteq> fee_id downpaymentFee)
                                                           (enrollment_fees st2)\<rparr>)
                                        else
                                          (Inr \<lparr>gb_enrollment_id = enrollment_id,
                                                gb_account_id = account_id,
                                                gb_scheme_name = sch_name scheme,
                                                gb_scheme_type = sch_type scheme,
                                                gb_total_amount = totalAmount,
                                                gb_discount = discount,
                                                gb_plan = InstallmentPlan downpayment
                                                            (fee_id downpaymentFee) monthlyPayment
                                                            months installments,
                                                gb_generated_by = created_by,
                                                gb_warned = warned\<rparr>,
                                           st2\<lparr>payment_installments :=
                                                 payment_installments st2 @ installments\<rparr>)))
                            else (Inl (''Invalid scheme type: '' @ sch_type scheme), st1))))))"

text \<open>\<^verbatim>\<open>String.prototype.includes\<close>, and the route's choice of the status code by it.\<close>

fun includes_str :: "string \<Rightarrow> string \<Rightarrow> bool" where
  "includes_str [] sub = (sub = [])"
| "includes_str (c # cs) sub = (if take (length sub) (c # cs) = sub then True else includes_str cs sub)"

definition generate_billing ::
  "store_faults \<Rightarrow> host \<Rightarrow> nat option \<Rightarrow> nat option \<Rightarrow> ledger \<Rightarrow> (nat \<times> (string + billing)) \<times> ledger" where
  "generate_billing faults h enrollment_id created_by st =
     (case enrollment_id of
        None \<Rightarrow> ((400, Inl ''Enrollment ID is required''), st)
      | Some eid \<Rightarrow>
          if eid = 0 then ((400, Inl ''Enrollment ID is required''), st)
          else
            (case generateBilling faults h eid created_by st of
               (Inr result, st') \<Rightarrow> ((200, Inr result), st')
             | (Inl message, st') \<Rightarrow>
                 ((if includes_str message ''already generated'' then 400
                   else if includes_str message ''not found'' then 404
                   else 500,
                   Inl (if message = [] then ''Internal server error'' else message)),
                  st')))"

subsection \<open>Checkout creation (lines 549-728)\<close>

text \<open>
  The handler up to the insert of the \<^verbatim>\<open>Pending\<close> payment. The gateway session and the
  \<^verbatim>\<open>payment_transactions\<close> row that follow (lines 730-858) are not part of the model. A
  description is its template with the values it interpolates.
\<close>

datatype description =
    FullPaymentDesc string
  | DownpaymentDesc string
  | InstallmentDesc int "int option" string

definition determine_payment ::
  "tuition_scheme \<Rightarrow> nat \<Rightarrow> ledger \<Rightarrow> string + (rat \<times> description \<times> string)" where
  "determine_payment scheme enrollment_id st =
     (let chosen =
        (if sch_type scheme = ''full_payment'' then
           (let fees = filter (\<lambda>f. fee_enrollment_id f = enrollment_id \<and> \<not> fee_is_paid f)
                              (enrollment_fees st)
            in if fees = []
               then Inl ''No unpaid fees found. All payments completed or billing not generated.''
               else Inr (sum_list (map fee_amount fees),
                         FullPaymentDesc (sch_name scheme), ''full_payment''))
         else if sch_type scheme = ''installment'' then
           (case maybeSingle
                   (filter (\<lambda>f. fee_enrollment_id f = enrollment_id \<and> fee_type f = ''Downpayment'')
                           (enrollment_fees st)) of
              Inl err \<Rightarrow> Inl ''Billing not generated. Please generate billing first.''
            | Inr None \<Rightarrow> Inl ''Billing not generated. Please generate billing first.''
            | Inr (Some downpaymentFee) \<Rightarrow>
                if \<not> fee_is_paid downpaymentFee
                then Inr (fee_amount downpaymentFee,
                          DownpaymentDesc (sch_name scheme), ''downpayment'')
                else
                  (case sort_key inst_number
                          (filter (\<lambda>i. inst_enrollment_id i = enrollment_id
                                       \<and> inst_status i = ''pending'')
                                  (payment_installments st)) of
                     [] \<Rightarrow> Inl ''No pending installments found. All payments completed.''
                   | installment # _ \<Rightarrow>
                       Inr (inst_amount installment,
                            InstallmentDesc (inst_number installment) (sch_months scheme)
                              (sch_name scheme),
                            ''installment'')))
         else Inl ''Invalid scheme type'')
      in case chosen of
           Inl err \<Rightarrow> Inl err
         | Inr (amount, description, payment_type) \<Rightarrow>
             if round2 amount \<le> 0 then Inl ''Invalid payment amount''
             else Inr (round2 amount, description, payment_type))"

record checkout =
  co_payment_id :: nat
  co_amount :: rat
  co_payment_type :: string
  co_description :: description
  co_scheme_id :: nat

definition create_checkout ::
  "timestamp \<Rightarrow> nat option \<Rightarrow> nat option \<Rightarrow> ledger \<Rightarrow> ((nat \<times> string) + checkout) \<times> ledger" where
  "create_checkout now enrollment_id created_by st =
     (if \<not> truthy_id enrollment_id then (Inl (400, ''Enrollment ID is required''), st)
      else
        (case single (filter (\<lambda>e. Some (enr_id e) = enrollment_id) (enrollments st)) of
           None \<Rightarrow> (Inl (404, ''Enrollment not found''), st)
         | Some enrollment \<Rightarrow>
             (case maybeSingle
                     (filter (\<lambda>a. acc_student_id a = enr_student_id enrollment) (accounts st)) of
                Inl accountError \<Rightarrow> (Inl (400, accountError), st)
              | Inr None \<Rightarrow> (Inl (400, ''Account not found. Please generate billing first.''), st)
              | Inr (Some account) \<Rightarrow>
                  (case single (filter (\<lambda>s. Some (sch_id s) = enr_scheme_id enrollment)
                                       (tuition_schemes st)) of
                     None \<Rightarrow> (Inl (500, ''Internal server error''), st)
                   | Some scheme \<Rightarrow>
                       (case determine_payment scheme (enr_id enrollment) st of
                          Inl err \<Rightarrow> (Inl (400, err), st)
                        | Inr (amount, description, payment_type) \<Rightarrow>
                            (let payment_id = next_id (map pay_id (payments st));
                                 payment =
                                   \<lparr>pay_id = payment_id,
                                    pay_account_id = acc_id account,
                                    pay_enrollment_id = Some (enr_id enrollment),
                                    pay_amount = amount,
                                    pay_status = ''Pending'',
                                    pay_type = payment_type,
                                    pay_method = None,
                                    pay_reference_no = None,
                                    pay_created_by = created_by,
                                    pay_date = now,
                                    pay_for_semester_id = Some (enr_semester_id enrollment),
                                    pay_idempotency_key =
                                      Some (enr_id enrollment, payment_type, now)\<rparr>
                             in (Inr \<lparr>co_payment_id = payment_id,
                                      co_amount = amount,
                                      co_payment_type = payment_type,
                                      co_description = description,
                                      co_scheme_id = sch_id scheme\<rparr>,
                                 st\<lparr>payments := payments st @ [payment]\<rparr>)))))))"

section \<open>Sample ledgers and requests\<close>

text \<open>Concrete environments, rows and requests on which the handlers are evaluated.\<close>

definition env_offline :: env where
  "env_offline = \<lparr>env_PAYMONGO_ENABLED = None, env_PAYMONGO_SECRET_KEY = None,
                   env_PAYMONGO_PUBLIC_KEY = None, env_PAYMONGO_WEBHOOK_SECRET = None,
                   env_FRONTEND_URL = None\<rparr>"

definition env_live :: env where
  "env_live = \<lparr>env_PAYMONGO_ENABLED = Some ''true'', env_PAYMONGO_SECRET_KEY = Some ''sk_live'',
                env_PAYMONGO_PUBLIC_KEY = Some ''pk_live'',
                env_PAYMONGO_WEBHOOK_SECRET = Some ''whsec'',
                env_FRONTEND_URL = Some ''https://portal.example''\<rparr>"

text \<open>
  The reading of the limited update that the handlers count on: of the pending rows of the
  enrollment, the first in ascending due date, addressed by its primary key.
\<close>

definition first_due :: limited_update where
  "first_due e rows r =
     (case sort_key inst_due_date
             (filter (\<lambda>i. inst_enrollment_id i = e \<and> inst_status i = ''pending'') rows) of
        [] \<Rightarrow> False
      | i # _ \<Rightarrow> inst_id r = inst_id i)"

definition rpc_ok :: rpc where
  "rpc_ok payment_id account_id enrollment_id amount payment_type st = Inr st"

definition account1 :: account where
  "account1 = \<lparr>acc_id = 1, acc_student_id = 10, acc_total_balance = 500, acc_last_updated = None\<rparr>"

definition balance_payment :: payment where
  "balance_payment =
     \<lparr>pay_id = 7, pay_account_id = 1, pay_enrollment_id = None, pay_amount = 800,
      pay_status = ''Pending'', pay_type = ''balance'', pay_method = None,
      pay_reference_no = None, pay_created_by = Some 3, pay_date = 50,
      pay_for_semester_id = None, pay_idempotency_key = None\<rparr>"

definition empty_ledger :: ledger where
  "empty_ledger =
     \<lparr>enrollments = [], tuition_schemes = [], students = [], course_subjects = [],
      enrollment_subjects = [], accounts = [], payments = [], payment_transactions = [],
      enrollment_fees = [], payment_installments = [], account_transactions = []\<rparr>"

definition balance_ledger :: ledger where
  "balance_ledger =
     empty_ledger\<lparr>accounts := [account1], payments := [balance_payment],
       payment_transactions :=
         [\<lparr>ptx_payment_id = 7, ptx_status = ''pending'', ptx_paid_at = None,
           ptx_payment_method = None, ptx_paymongo_status = None\<rparr>]\<rparr>"

definition paid_event :: "nat \<Rightarrow> request" where
  "paid_event payment_id =
     \<lparr>req_headers = [],
      req_body =
        \<lparr>ev_type = Some ''checkout_session.payment.paid'',
         ev_data = Some \<lparr>cs_id = ''cs_test_1'',
                          cs_attributes = Some \<lparr>ca_metadata =
                              Some \<lparr>md_payment_id = Some payment_id, md_enrollment_id = None,
                                    md_payment_category = None\<rparr>,
                            ca_source_type = Some ''gcash'', ca_intent_status = None\<rparr>\<rparr>\<rparr>\<rparr>"

definition mock_default :: mock_body where
  "mock_default = \<lparr>mb_success = None, mb_payment_method = None, mb_completed_by = None\<rparr>"

definition partial_payment :: payment where
  "partial_payment =
     \<lparr>pay_id = 8, pay_account_id = 1, pay_enrollment_id = None, pay_amount = 200,
      pay_status = ''Pending'', pay_type = ''balance'', pay_method = None,
      pay_reference_no = None, pay_created_by = Some 3, pay_date = 50,
      pay_for_semester_id = None, pay_idempotency_key = None\<rparr>"

definition partial_ledger :: ledger where
  "partial_ledger =
     empty_ledger\<lparr>accounts := [account1], payments := [partial_payment],
       payment_transactions :=
         [\<lparr>ptx_payment_id = 8, ptx_status = ''pending'', ptx_paid_at = None,
           ptx_payment_method = None, ptx_paymongo_status = None\<rparr>]\<rparr>"

definition completed_ledger :: ledger where
  "completed_ledger =
     empty_ledger\<lparr>accounts := [account1],
       payments := [balance_payment\<lparr>pay_status := ''Completed''\<rparr>],
       payment_transactions :=
         [\<lparr>ptx_payment_id = 7, ptx_status = ''paid'', ptx_paid_at = Some 60,
           ptx_payment_method = Some ''gcash'', ptx_paymongo_status = None\<rparr>]\<rparr>"

definition mock_failure :: mock_body where
  "mock_failure = \<lparr>mb_success = Some False, mb_payment_method = None, mb_completed_by = None\<rparr>"

text \<open>A stand-in for the keyed digest, and a request signed for the body \<^verbatim>\<open>paid\<close>.\<close>

definition toy_digest :: "string \<Rightarrow> string \<Rightarrow> string" where
  "toy_digest secret msg = secret @ msg"

definition signed_request :: "string \<Rightarrow> raw_request" where
  "signed_request sent_body =
     \<lparr>rq_headers = [(''content-type'', ''application/json''),
                    (''paymongo-signature'', ''t=1700000000,te=,li=,s=whsecpaid'')],
      rq_body = Raw sent_body\<rparr>"

text \<open>An enrollment under an installment scheme, before billing is generated.\<close>

definition no_faults :: store_faults where
  "no_faults = \<lparr>account_rpc_error = None, fee_insert_error = False,
                 installment_insert_error = False\<rparr>"

text \<open>
  A server whose clock is UTC; at one cent apart it warns, as the doubles do for 9000.01
  against 9000.
\<close>

definition utc_host :: "date \<Rightarrow> host" where
  "utc_host today =
     \<lparr>host_today = today, host_toISODate = (\<lambda>d. d), host_exceeds_cent = (\<lambda>a b. True)\<rparr>"

definition installment_scheme :: tuition_scheme where
  "installment_scheme =
     \<lparr>sch_id = 2, sch_name = ''Plan B'', sch_type = ''installment'', sch_amount = 9000,
      sch_downpayment = Some 1000, sch_monthly_payment = Some 2000, sch_months = Some 4,
      sch_discount = Some 0\<rparr>"

definition bare_scheme :: tuition_scheme where
  "bare_scheme =
     \<lparr>sch_id = 2, sch_name = ''Plan C'', sch_type = ''installment'', sch_amount = 9000,
      sch_downpayment = None, sch_monthly_payment = None, sch_months = None,
      sch_discount = None\<rparr>"

definition enrollment1 :: enrollment where
  "enrollment1 =
     \<lparr>enr_id = 1, enr_student_id = 10, enr_program_id = 5, enr_semester_id = 6,
      enr_scheme_id = Some 2, enr_status = ''Pending''\<rparr>"

definition enrolled_ledger :: "tuition_scheme \<Rightarrow> ledger" where
  "enrolled_ledger scheme = empty_ledger\<lparr>enrollments := [enrollment1], tuition_schemes := [scheme]\<rparr>"

text \<open>The same enrollment once billing is generated, and once its downpayment is paid.\<close>

definition billed_ledger :: ledger where
  "billed_ledger =
     snd (generateBilling no_faults (utc_host (2025, 1, 15)) 1 (Some 3)
            (enrolled_ledger installment_scheme))"

definition downpaid_ledger :: ledger where
  "downpaid_ledger =
     billed_ledger\<lparr>enrollment_fees :=
        map (\<lambda>f. f\<lparr>fee_is_paid := True, fee_paid_at := Some 150\<rparr>) (enrollment_fees billed_ledger)\<rparr>"

text \<open>
  A stand-in for the payment procedure that does its first step only: the payment becomes
  \<^verbatim>\<open>Completed\<close>. Two pending payments; and a request whose body
  \<^verbatim>\<open>express.json()\<close> has parsed, an event of the \<^verbatim>\<open>enrollment\<close> category for the
  payment named, under a header that carries the digest of \<^verbatim>\<open>[object Object]\<close>.
\<close>

definition rpc_mark_completed :: rpc where
  "rpc_mark_completed payment_id account_id enrollment_id amount payment_type st =
     Inr (st\<lparr>payments :=
               map (\<lambda>p. if pay_id p = payment_id then p\<lparr>pay_status := ''Completed''\<rparr> else p)
                   (payments st)\<rparr>)"

definition two_payments_ledger :: ledger where
  "two_payments_ledger =
     empty_ledger\<lparr>accounts := [account1], payments := [balance_payment, partial_payment]\<rparr>"

definition enrollment_event :: "nat \<Rightarrow> event" where
  "enrollment_event payment_id =
     \<lparr>ev_type = Some ''checkout_session.payment.paid'',
      ev_data = Some \<lparr>cs_id = ''cs_test_2'',
                       cs_attributes = Some \<lparr>ca_metadata =
                           Some \<lparr>md_payment_id = Some payment_id, md_enrollment_id = Some 1,
                                 md_payment_category = Some ''enrollment''\<rparr>,
                         ca_source_type = Some ''gcash'', ca_intent_status = None\<rparr>\<rparr>\<rparr>"

definition parsed_request :: "nat \<Rightarrow> raw_request" where
  "parsed_request payment_id =
     \<lparr>rq_headers = [(''content-type'', ''application/json''),
                    (''paymongo-signature'', ''t=1700000000,te=,li=,s=whsec[object Object]'')],
      rq_body = Parsed (enrollment_event payment_id)\<rparr>"

text \<open>
  The ledger after \<^verbatim>\<open>POST /create-checkout\<close> for the enrollment whose downpayment is paid:
  it holds the pending payment for installment 1.
\<close>

definition installment_checkout_ledger :: ledger where
  "installment_checkout_ledger = snd (create_checkout 300 (Some 1) (Some 3) downpaid_ledger)"

section \<open>Properties\<close>

lemmas sample_defs = env_offline_def env_live_def rpc_ok_def account1_def balance_payment_def
  empty_ledger_def balance_ledger_def paid_event_def mock_default_def

subsection \<open>Store lemmas\<close>

lemma single_Some_iff: "single xs = Some x \<longleftrightarrow> xs = [x]"
  by (auto simp: single_def split: list.splits)

lemma filter_map_key:
  assumes "\<And>a. key (f a) = key a"
  shows "filter (\<lambda>a. key a = k) (map f xs) = map f (filter (\<lambda>a. key a = k) xs)"
  using assms by (induction xs) auto

lemma balances_after_update:
  assumes "account_of p st = Some acc"
  shows "map acc_total_balance
           (filter (\<lambda>a. acc_id a = pay_account_id p)
              (map (\<lambda>a. if acc_id a = acc_id acc
                        then a\<lparr>acc_total_balance := b, acc_last_updated := t\<rparr> else a)
                   (accounts st))) = [b]"
proof -
  have sel: "filter (\<lambda>a. acc_id a = pay_account_id p) (accounts st) = [acc]"
    using assms by (simp add: account_of_def single_Some_iff)
  have "filter (\<lambda>a. acc_id a = pay_account_id p)
              (map (\<lambda>a. if acc_id a = acc_id acc
                        then a\<lparr>acc_total_balance := b, acc_last_updated := t\<rparr> else a)
                   (accounts st))
        = map (\<lambda>a. if acc_id a = acc_id acc
                        then a\<lparr>acc_total_balance := b, acc_last_updated := t\<rparr> else a)
              (filter (\<lambda>a. acc_id a = pay_account_id p) (accounts st))"
    by (rule filter_map_key) simp
  then show ?thesis by (simp add: sel)
qed

lemma process_by_type_balance:
  "pay_type p = ''balance'' \<Longrightarrow>
   process_by_type written now pid p acc st =
     st\<lparr>accounts := map (\<lambda>a. if acc_id a = acc_id acc
                               then a\<lparr>acc_total_balance := max 0 (acc_total_balance acc - pay_amount p),
                                      acc_last_updated := Some now\<rparr>
                               else a) (accounts st)\<rparr>"
  by (simp add: process_by_type_def Let_def split: option.splits)

subsection \<open>Balance floor\<close>

text \<open>
  C4. Completing a \<^verbatim>\<open>balance\<close> payment through the payments webhook (tuition branch) or
  through the mock completion sets the total balance of the payment's account to
  \<open>max 0 (previous_balance - amount)\<close>: never negative, and exactly 0 when the payment
  exceeds the balance.
\<close>

theorem balance_floor:
  assumes pay: "payment_by_id pid st = Some p"
      and acc: "account_of p st = Some acc"
      and ty: "pay_type p = ''balance''"
      and ev: "ev_type (req_body req) = Some ''checkout_session.payment.paid''"
              "ev_data (req_body req) = Some cs" "cs_attributes cs = Some a"
              "ca_metadata a = Some md" "md_payment_id md = Some pid"
      and tuition: "md_enrollment_id md = None \<or> md_payment_category md \<noteq> Some ''enrollment''"
      and mock: "\<not> payments_PAYMONGO_ENABLED e'" "mb_success body \<noteq> Some False"
  shows "map acc_total_balance
           (filter (\<lambda>a. acc_id a = pay_account_id p)
                   (accounts (snd (webhook e written rpc now req st))))
           = [max 0 (acc_total_balance acc - pay_amount p)]
         \<and> map acc_total_balance
           (filter (\<lambda>a. acc_id a = pay_account_id p)
                   (accounts (snd (mock_complete e' written' now pid body st))))
           = [max 0 (acc_total_balance acc - pay_amount p)]
         \<and> 0 \<le> max 0 (acc_total_balance acc - pay_amount p)
         \<and> (acc_total_balance acc < pay_amount p \<longrightarrow>
                max 0 (acc_total_balance acc - pay_amount p) = 0)"
proof -
  have w: "accounts (snd (webhook e written rpc now req st)) =
           map (\<lambda>a. if acc_id a = acc_id acc
                     then a\<lparr>acc_total_balance := max 0 (acc_total_balance acc - pay_amount p),
                            acc_last_updated := Some now\<rparr>
                     else a) (accounts st)"
    using pay acc ty ev tuition
    by (auto simp add: webhook_def Let_def process_by_type_balance)
  have m: "accounts (snd (mock_complete e' written' now pid body st)) =
           map (\<lambda>a. if acc_id a = acc_id acc
                     then a\<lparr>acc_total_balance := max 0 (acc_total_balance acc - pay_amount p),
                            acc_last_updated := Some now\<rparr>
                     else a) (accounts st)"
    using pay acc ty mock
    by (auto simp add: mock_complete_def Let_def process_by_type_balance split: option.splits)
  show ?thesis
    unfolding w m using balances_after_update [OF acc] by simp
qed

theorem balance_floor_witness:
  "map acc_total_balance
     (filter (\<lambda>a. acc_id a = 1) (accounts (snd (webhook env_live first_due rpc_ok 100 (paid_event 7) balance_ledger))))
     = [0]
   \<and> map acc_total_balance
     (filter (\<lambda>a. acc_id a = 1) (accounts (snd (mock_complete env_offline first_due 100 7 mock_default balance_ledger))))
     = [0]"
  using balance_floor [where pid = 7 and st = balance_ledger and p = balance_payment
      and acc = account1 and req = "paid_event 7"
      and cs = "\<lparr>cs_id = ''cs_test_1'',
                          cs_attributes = Some \<lparr>ca_metadata =
                              Some \<lparr>md_payment_id = Some 7, md_enrollment_id = None,
                                    md_payment_category = None\<rparr>,
                            ca_source_type = Some ''gcash'', ca_intent_status = None\<rparr>\<rparr>"
      and a = "\<lparr>ca_metadata =
                              Some \<lparr>md_payment_id = Some 7, md_enrollment_id = None,
                                    md_payment_category = None\<rparr>,
                            ca_source_type = Some ''gcash'', ca_intent_status = None\<rparr>"
      and md = "\<lparr>md_payment_id = Some 7, md_enrollment_id = None,
                                    md_payment_category = None\<rparr>"
      and e = env_live and rpc = rpc_ok and now = 100 and e' = env_offline and body = mock_default
      and written = first_due and written' = first_due]
  by (simp add: sample_defs payment_by_id_def account_of_def single_def
        payments_PAYMONGO_ENABLED_def truthy_str_def)

lemmas payment_samples = partial_payment_def partial_ledger_def completed_ledger_def
  mock_failure_def

subsection \<open>The payments webhook verifies no signature\<close>

text \<open>
  C9. \<^verbatim>\<open>POST /webhook\<close> of the payments router never answers 401, and its reply and its
  effect on the ledger are the same whatever the request's headers and the configured
  gateway credentials are: no signature is looked at.
\<close>

theorem webhook_never_401:
  "status_code (fst (webhook e written rpc now req st)) \<noteq> 401
   \<and> webhook e written rpc now req st
       = webhook e' written rpc now (req\<lparr>req_headers := hs\<rparr>) st"
  by (auto simp add: webhook_def Let_def split: option.splits prod.splits sum.splits)

theorem webhook_never_401_witness:
  "status_code (fst (webhook env_live first_due rpc_ok 100 (paid_event 7) balance_ledger)) \<noteq> 401
   \<and> fst (webhook env_live first_due rpc_ok 100 (paid_event 7) balance_ledger)
       = Json 200 [(''success'', JB True), (''message'', JS ''Webhook processed'')]
   \<and> map pay_status (payments (snd (webhook env_live first_due rpc_ok 100 (paid_event 7) balance_ledger)))
       = [''Completed'']"
  using webhook_never_401 [of env_live first_due rpc_ok 100 "paid_event 7" balance_ledger env_live "[]"]
  by (simp add: sample_defs webhook_def payment_by_id_def account_of_def single_def
        process_by_type_def Let_def)

subsection \<open>Terminal payment states\<close>

text \<open>
  C3. The claim asks that no operation moves a payment out of \<^verbatim>\<open>Completed\<close>,
  \<^verbatim>\<open>Cancelled\<close> or \<^verbatim>\<open>Failed\<close>, and that every cancellation path cancels
  \<^verbatim>\<open>Pending\<close> payments only. The administrative endpoint \<^verbatim>\<open>POST /cancel/:payment_id\<close>
  does reject a \<^verbatim>\<open>Completed\<close> payment with 400. The cancel callback
  \<^verbatim>\<open>GET /payment/cancel\<close> does not look at the status: on the same ledger it turns the
  \<^verbatim>\<open>Completed\<close> payment into \<^verbatim>\<open>Cancelled\<close>. A mock completion with
  \<^verbatim>\<open>success: false\<close> turns it into \<^verbatim>\<open>Failed\<close>.
\<close>

theorem cancel_callback_overwrites_completed:
  "map pay_status (payments completed_ledger) = [''Completed'']
   \<and> cancel 7 completed_ledger
       = (Json 400 [(''error'', JS ''Cannot cancel payment with status: Completed'')],
          completed_ledger)
   \<and> map pay_status (payments (snd (payment_cancel env_live (Some 7) completed_ledger)))
       = [''Cancelled'']
   \<and> map pay_status (payments (snd (mock_complete env_offline written 100 7 mock_failure completed_ledger)))
       = [''Failed'']"
  by (simp add: sample_defs payment_samples payment_cancel_def cancel_def mock_complete_def
        payments_PAYMONGO_ENABLED_def truthy_str_def payment_by_id_def single_def Let_def)

subsection \<open>Repeated completion\<close>

text \<open>
  The completion engine of the billing router leaves a \<^verbatim>\<open>Completed\<close> payment alone and
  reports \<^verbatim>\<open>already_processed: true\<close>.
\<close>

lemma processPaymentCompletion_idempotent:
  "pay_status p = ''Completed'' \<Longrightarrow>
   processPaymentCompletion rpc payment_id p st
     = (Inr \<lparr>success = True, already_processed = Some True\<rparr>, st)"
  by (simp add: processPaymentCompletion_def)

text \<open>
  So do the triggers that go through it: the success callback, and the enrollment handler
  that both webhooks call for payments of the \<^verbatim>\<open>enrollment\<close> category.
\<close>

lemma completed_payment_untouched:
  assumes "payment_by_id pid st = Some p" and "pay_status p = ''Completed''"
  shows "snd (payment_success e rpc (Some pid) st) = st"
    and "pid \<noteq> 0 \<Longrightarrow>
         handleEnrollmentPayment rpc
           \<lparr>md_payment_id = Some pid, md_enrollment_id = x, md_payment_category = y\<rparr> st
         = (Inr (), st)"
  using assms
  by (simp_all add: payment_success_def handleEnrollmentPayment_def
        processPaymentCompletion_idempotent)

text \<open>
  C1. The claim asks that completing a payment that is already \<^verbatim>\<open>Completed\<close> changes
  nothing, on every trigger. The tuition branch of the payments webhook has no such guard:
  a \<^verbatim>\<open>balance\<close> payment of 200 on a balance of 500, delivered twice, is settled twice.
  After the first delivery the payment is \<^verbatim>\<open>Completed\<close>, the balance 300 and the log one
  row long; after the second the balance is 100 and the log two rows long, and the reply
  is the plain success again.
\<close>

theorem webhook_redelivery_mutates_again:
  "map pay_status (payments (snd (webhook env_live written rpc_ok 100 (paid_event 8) partial_ledger)))
     = [''Completed'']
   \<and> map acc_total_balance
         (accounts (snd (webhook env_live written rpc_ok 100 (paid_event 8) partial_ledger))) = [300]
   \<and> length (account_transactions
         (snd (webhook env_live written rpc_ok 100 (paid_event 8) partial_ledger))) = 1
   \<and> fst (webhook env_live written rpc_ok 101 (paid_event 8)
            (snd (webhook env_live written rpc_ok 100 (paid_event 8) partial_ledger)))
       = Json 200 [(''success'', JB True), (''message'', JS ''Webhook processed'')]
   \<and> map acc_total_balance
         (accounts (snd (webhook env_live written rpc_ok 101 (paid_event 8)
            (snd (webhook env_live written rpc_ok 100 (paid_event 8) partial_ledger))))) = [100]
   \<and> length (account_transactions
         (snd (webhook env_live written rpc_ok 101 (paid_event 8)
            (snd (webhook env_live written rpc_ok 100 (paid_event 8) partial_ledger))))) = 2"
  by (simp add: sample_defs payment_samples webhook_def payment_by_id_def account_of_def
        single_def process_by_type_def Let_def)

subsection \<open>Webhook signature\<close>

text \<open>
  With the gateway enabled and a webhook secret configured, \<^verbatim>\<open>POST /webhook/paymongo\<close>
  answers 401 and leaves the ledger untouched whenever the \<^verbatim>\<open>paymongo-signature\<close>
  header is missing, or the signature taken from its \<^verbatim>\<open>s=\<close> field is not the keyed
  digest of \<^verbatim>\<open>req.body.toString("utf8")\<close> under the secret.
\<close>

lemma webhook_signature_rejection:
  assumes "billing_PAYMONGO_ENABLED e"
      and "env_PAYMONGO_WEBHOOK_SECRET e = Some secret" and "secret \<noteq> []"
      and "case map_of (rq_headers req) ''paymongo-signature'' of
             None \<Rightarrow> True
           | Some signature \<Rightarrow>
               actualSignature signature \<noteq> Some (hmac_sha256_hex secret (toString (rq_body req)))"
  shows "webhook_paymongo e hmac_sha256_hex rpc req st
           = (Json 401 [(''error'', JS (if truthy_str (map_of (rq_headers req) ''paymongo-signature'')
                                        then ''Unauthorized - invalid signature''
                                        else ''Unauthorized - missing signature''))], st)"
  using assms
  by (auto simp add: webhook_paymongo_def verify_signature_def Let_def truthy_str_def
        split: option.splits)

text \<open>
  A body tampered with after signing: the header still carries the digest of \<^verbatim>\<open>paid\<close>,
  the body reads \<^verbatim>\<open>tampered\<close>.
\<close>

lemma webhook_signature_rejection_on_raw_body:
  "actualSignature ''t=1700000000,te=,li=,s=whsecpaid'' = Some (toy_digest ''whsec'' ''paid'')
   \<and> webhook_paymongo env_live toy_digest rpc_ok (signed_request ''tampered'') balance_ledger
       = (Json 401 [(''error'', JS ''Unauthorized - invalid signature'')], balance_ledger)"
  using webhook_signature_rejection [where e = env_live and secret = "''whsec''"
          and req = "signed_request ''tampered''" and hmac_sha256_hex = toy_digest
          and rpc = rpc_ok and st = balance_ledger]
  by (simp add: env_live_def billing_PAYMONGO_ENABLED_def signed_request_def toy_digest_def
        actualSignature_def truthy_str_def)

lemma signed_request_accepted:
  "fst (webhook_paymongo env_live toy_digest rpc_ok (signed_request ''paid'') balance_ledger)
     = Json 200 [(''received'', JB True)]"
  by (simp add: env_live_def billing_PAYMONGO_ENABLED_def signed_request_def toy_digest_def
        actualSignature_def truthy_str_def webhook_paymongo_def verify_signature_def Let_def)

text \<open>
  That text is the request's only where the body arrives raw, and there the handler goes
  no further: it parses the body only when it is a string, and a \<^verbatim>\<open>Buffer\<close> has no event
  in it. Where \<^verbatim>\<open>express.json()\<close> has parsed the body, the text is the same for every
  body.
\<close>

lemma parsed_body_not_verified:
  "verify_signature e hmac_sha256_hex \<lparr>rq_headers = hs, rq_body = Parsed ev\<rparr>
     = verify_signature e hmac_sha256_hex \<lparr>rq_headers = hs, rq_body = Parsed ev'\<rparr>"
  by (simp add: verify_signature_def Let_def split: option.splits)

lemma raw_body_not_processed:
  "snd (webhook_paymongo e hmac_sha256_hex rpc \<lparr>rq_headers = hs, rq_body = Raw text\<rparr> st) = st"
  by (simp add: webhook_paymongo_def split: option.splits)

text \<open>
  C6. The claim asks that a request whose body was changed under an unchanged signature
  header is answered 401 and changes nothing. On the mounts that \<^verbatim>\<open>express.json()\<close>
  serves, the digest is taken of \<^verbatim>\<open>[object Object]\<close>: the header that carries it is
  accepted for the event of payment 7 and, unchanged, for the event of payment 8, and each
  request completes its payment.
\<close>

theorem webhook_signature_constant_for_parsed_body:
  "actualSignature ''t=1700000000,te=,li=,s=whsec[object Object]''
     = Some (toy_digest ''whsec'' ''[object Object]'')
   \<and> fst (webhook_paymongo env_live toy_digest rpc_mark_completed (parsed_request 7)
            two_payments_ledger)
       = Json 200 [(''received'', JB True)]
   \<and> map (\<lambda>p. (pay_id p, pay_status p))
         (payments (snd (webhook_paymongo env_live toy_digest rpc_mark_completed
                           (parsed_request 7) two_payments_ledger)))
       = [(7, ''Completed''), (8, ''Pending'')]
   \<and> fst (webhook_paymongo env_live toy_digest rpc_mark_completed (parsed_request 8)
            two_payments_ledger)
       = Json 200 [(''received'', JB True)]
   \<and> map (\<lambda>p. (pay_id p, pay_status p))
         (payments (snd (webhook_paymongo env_live toy_digest rpc_mark_completed
                           (parsed_request 8) two_payments_ledger)))
       = [(7, ''Pending''), (8, ''Completed'')]"
  by (simp add: sample_defs payment_samples rpc_mark_completed_def two_payments_ledger_def
        enrollment_event_def parsed_request_def toy_digest_def actualSignature_def
        webhook_paymongo_def verify_signature_def billing_PAYMONGO_ENABLED_def
        processPaymentCompletion_def payment_by_id_def single_def Let_def)


lemmas billing_samples = no_faults_def utc_host_def installment_scheme_def bare_scheme_def enrollment1_def
  enrolled_ledger_def empty_ledger_def

lemmas billing_eval = generateBilling_def initialize_account_balance_def new_installments_def
  setMonth_plus_def overflow_day.simps days_in_month_def leap_year_def next_id_def
  parseFloat_or_0_def parseInt_or_4_def round2_def single_def Let_def upto_rec1

subsection \<open>Billing generation\<close>

lemma floor_rat_numeral: "\<lfloor>numeral a / numeral b :: rat\<rfloor> = numeral a div numeral b"
  using floor_divide_of_int_eq [of "numeral a" "numeral b", where ?'a = rat] by simp


lemma initialize_account_balance_frame:
  "initialize_account_balance e n s t st = (a, st1) \<Longrightarrow>
     enrollments st1 = enrollments st \<and> tuition_schemes st1 = tuition_schemes st
     \<and> enrollment_fees st1 = enrollment_fees st
     \<and> payment_installments st1 = payment_installments st
     \<and> payments st1 = payments st"
  by (auto simp: initialize_account_balance_def Let_def split: list.splits)

lemma includes_already_generated:
  "includes_str ''Billing already generated for this enrollment'' ''already generated''"
  by simp

lemma generateBilling_frame:
  assumes "generateBilling faults h eid cb st = (r, st')"
  shows "enrollments st' = enrollments st \<and> tuition_schemes st' = tuition_schemes st"
  using assms
  by (auto simp: generateBilling_def Let_def
        dest!: initialize_account_balance_frame
        split: option.splits if_splits prod.splits)

lemma generateBilling_success_fee:
  assumes "generateBilling faults h eid cb st = (Inr b, st')"
  shows "filter (\<lambda>f. fee_enrollment_id f = eid) (enrollment_fees st') \<noteq> []"
  using assms
  by (auto simp: generateBilling_def Let_def
        split: option.splits if_splits prod.splits)

lemma generateBilling_success_lookup:
  assumes "generateBilling faults h eid cb st = (Inr b, st')"
  shows "\<exists>en sc. single (filter (\<lambda>e. enr_id e = eid) (enrollments st)) = Some en
           \<and> single (filter (\<lambda>s. Some (sch_id s) = enr_scheme_id en) (tuition_schemes st)) = Some sc"
  using assms
  by (auto simp: generateBilling_def Let_def
        split: option.splits if_splits prod.splits)

lemma generateBilling_repeat:
  assumes "generateBilling faults h eid cb st = (Inr b, st')"
  shows "generateBilling faults' h' eid cb' st'
           = (Inl ''Billing already generated for this enrollment'', st')"
proof -
  from generateBilling_success_lookup [OF assms] obtain en sc where
    en: "single (filter (\<lambda>e. enr_id e = eid) (enrollments st)) = Some en" and
    sc: "single (filter (\<lambda>s. Some (sch_id s) = enr_scheme_id en) (tuition_schemes st)) = Some sc"
    by blast
  have fr: "enrollments st' = enrollments st" "tuition_schemes st' = tuition_schemes st"
    using generateBilling_frame [OF assms] by simp_all
  have fee: "filter (\<lambda>f. fee_enrollment_id f = eid) (enrollment_fees st') \<noteq> []"
    by (rule generateBilling_success_fee [OF assms])
  show ?thesis
    unfolding generateBilling_def using en sc fee by (simp add: fr)
qed

text \<open>
  C5. When \<^verbatim>\<open>POST /generate-billing\<close> has succeeded for an enrollment, any further call
  for the same enrollment fails with "Billing already generated for this enrollment",
  answered with HTTP 400, and returns the ledger as the first call left it.
\<close>

theorem generate_billing_second_call_conflict:
  assumes "generate_billing faults h (Some eid) cb st = ((200, Inr b), st')"
  shows "generateBilling faults' h' eid cb' st'
           = (Inl ''Billing already generated for this enrollment'', st')
         \<and> generate_billing faults' h' (Some eid) cb' st'
           = ((400, Inl ''Billing already generated for this enrollment''), st')"
proof -
  have nz: "eid \<noteq> 0" and first: "generateBilling faults h eid cb st = (Inr b, st')"
    using assms
    by (auto simp: generate_billing_def split: if_splits prod.splits sum.splits)
  have second: "generateBilling faults' h' eid cb' st'
           = (Inl ''Billing already generated for this enrollment'', st')"
    by (rule generateBilling_repeat [OF first])
  show ?thesis
    using nz second includes_already_generated by (simp add: generate_billing_def)
qed

theorem generate_billing_second_call_conflict_witness:
  "fst (fst (generate_billing no_faults (utc_host (2025, 1, 15)) (Some 1) (Some 3)
               (enrolled_ledger installment_scheme))) = 200
   \<and> generate_billing no_faults (utc_host (2025, 2, 20)) (Some 1) (Some 3)
       (snd (generate_billing no_faults (utc_host (2025, 1, 15)) (Some 1) (Some 3)
               (enrolled_ledger installment_scheme)))
     = ((400, Inl ''Billing already generated for this enrollment''),
        snd (generate_billing no_faults (utc_host (2025, 1, 15)) (Some 1) (Some 3)
               (enrolled_ledger installment_scheme)))"
proof -
  obtain b st' where first:
    "generate_billing no_faults (utc_host (2025, 1, 15)) (Some 1) (Some 3)
       (enrolled_ledger installment_scheme)
       = ((200, Inr b), st')"
    by (simp add: generate_billing_def billing_samples billing_eval)
  have second:
    "generate_billing no_faults (utc_host (2025, 2, 20)) (Some 1) (Some 3) st'
       = ((400, Inl ''Billing already generated for this enrollment''), st')"
    using generate_billing_second_call_conflict [OF first] by blast
  show ?thesis unfolding first using second by simp
qed

lemma new_installments_filter:
  "filter (\<lambda>i. inst_enrollment_id i = eid) (new_installments k eid mp h n)
     = new_installments k eid mp h n"
  by (simp add: new_installments_def filter_map o_def)

lemma generateBilling_installment:
  assumes en: "single (filter (\<lambda>e. enr_id e = eid) (enrollments st)) = Some en"
      and sc: "single (filter (\<lambda>s. Some (sch_id s) = enr_scheme_id en) (tuition_schemes st)) = Some sc"
      and fresh: "filter (\<lambda>f. fee_enrollment_id f = eid) (enrollment_fees st) = []"
                 "filter (\<lambda>i. inst_enrollment_id i = eid) (payment_installments st) = []"
      and pos: "0 < round2 (sch_amount sc - parseFloat_or_0 (sch_discount sc))"
      and ty: "sch_type sc = ''installment''"
      and ok: "account_rpc_error faults = None" "\<not> fee_insert_error faults"
              "\<not> installment_insert_error faults"
  shows "\<exists>b st'. generateBilling faults h eid cb st = (Inr b, st')
          \<and> filter (\<lambda>f. fee_enrollment_id f = eid) (enrollment_fees st')
              = [\<lparr>fee_id = next_id (map fee_id (enrollment_fees st)),
                  fee_enrollment_id = eid, fee_type = ''Downpayment'',
                  fee_description = ''Downpayment - '' @ sch_name sc,
                  fee_amount = parseFloat_or_0 (sch_downpayment sc),
                  fee_is_paid = False, fee_paid_at = None\<rparr>]
          \<and> filter (\<lambda>i. inst_enrollment_id i = eid) (payment_installments st')
              = new_installments (fold max (map inst_id (payment_installments st)) 0) eid
                  (parseFloat_or_0 (sch_monthly_payment sc)) h (parseInt_or_4 (sch_months sc))
          \<and> (1 / 100 < \<bar>round2 (parseFloat_or_0 (sch_downpayment sc)
                          + parseFloat_or_0 (sch_monthly_payment sc)
                            * of_int (parseInt_or_4 (sch_months sc)))
                   - round2 (sch_amount sc - parseFloat_or_0 (sch_discount sc))\<bar>
               \<longrightarrow> gb_warned b)"
proof -
  obtain a st1 where init:
    "initialize_account_balance eid (sch_name sc) (enr_student_id en)
       (round2 (sch_amount sc - parseFloat_or_0 (sch_discount sc))) st = (a, st1)"
    by (cases "initialize_account_balance eid (sch_name sc) (enr_student_id en)
       (round2 (sch_amount sc - parseFloat_or_0 (sch_discount sc))) st") blast
  have fr: "enrollment_fees st1 = enrollment_fees st"
           "payment_installments st1 = payment_installments st"
    using initialize_account_balance_frame [OF init] by simp_all
  show ?thesis
    unfolding generateBilling_def
    using en sc fresh pos ty ok init
    by (simp add: Let_def fr new_installments_filter not_le [symmetric])
qed



lemma new_installments_numbers:
  "map inst_number (new_installments k eid mp h n) = [1..n]"
  by (simp add: new_installments_def o_def)

lemma new_installments_amounts:
  "map inst_amount (new_installments k eid mp h n) = map (\<lambda>i. mp) [1..n]"
  by (simp add: new_installments_def o_def)






text \<open>
  C10. For an installment scheme without \<^verbatim>\<open>months\<close>, \<^verbatim>\<open>generateBilling\<close> still
  succeeds and creates the downpayment fee and four installments, numbered 1 to 4; a
  missing \<^verbatim>\<open>downpayment\<close> makes the fee's amount 0, a missing \<^verbatim>\<open>monthly_payment\<close>
  makes every installment's amount 0.
\<close>

theorem installment_defaults:
  assumes en: "single (filter (\<lambda>e. enr_id e = eid) (enrollments st)) = Some en"
      and sc: "single (filter (\<lambda>s. Some (sch_id s) = enr_scheme_id en) (tuition_schemes st)) = Some sc"
      and fresh: "filter (\<lambda>f. fee_enrollment_id f = eid) (enrollment_fees st) = []"
                 "filter (\<lambda>i. inst_enrollment_id i = eid) (payment_installments st) = []"
      and pos: "0 < round2 (sch_amount sc - parseFloat_or_0 (sch_discount sc))"
      and ty: "sch_type sc = ''installment''"
      and months: "sch_months sc = None"
      and ok: "account_rpc_error faults = None" "\<not> fee_insert_error faults"
              "\<not> installment_insert_error faults"
  shows "\<exists>b st'. generateBilling faults h eid cb st = (Inr b, st')
          \<and> map fee_type (filter (\<lambda>f. fee_enrollment_id f = eid) (enrollment_fees st'))
              = [''Downpayment'']
          \<and> map fee_amount (filter (\<lambda>f. fee_enrollment_id f = eid) (enrollment_fees st'))
              = [case sch_downpayment sc of None \<Rightarrow> 0 | Some x \<Rightarrow> x]
          \<and> map inst_number
                (filter (\<lambda>i. inst_enrollment_id i = eid) (payment_installments st'))
              = [1, 2, 3, 4]
          \<and> map inst_amount
                (filter (\<lambda>i. inst_enrollment_id i = eid) (payment_installments st'))
              = replicate 4 (case sch_monthly_payment sc of None \<Rightarrow> 0 | Some x \<Rightarrow> x)"
proof -
  have N: "parseInt_or_4 (sch_months sc) = 4"
    using months by (simp add: parseInt_or_4_def)
  have four: "[1..4::int] = [1, 2, 3, 4]"
    by (simp add: upto_rec1)
  from generateBilling_installment [OF en sc fresh pos ty ok, of h cb]
  obtain b st' where
    gen: "generateBilling faults h eid cb st = (Inr b, st')" and
    fee: "filter (\<lambda>f. fee_enrollment_id f = eid) (enrollment_fees st')
              = [\<lparr>fee_id = next_id (map fee_id (enrollment_fees st)),
                  fee_enrollment_id = eid, fee_type = ''Downpayment'',
                  fee_description = ''Downpayment - '' @ sch_name sc,
                  fee_amount = parseFloat_or_0 (sch_downpayment sc),
                  fee_is_paid = False, fee_paid_at = None\<rparr>]" and
    inst: "filter (\<lambda>i. inst_enrollment_id i = eid) (payment_installments st')
              = new_installments (fold max (map inst_id (payment_installments st)) 0) eid
                  (parseFloat_or_0 (sch_monthly_payment sc)) h 4"
    unfolding N by blast
  show ?thesis
    using gen
    by (simp add: fee inst new_installments_numbers new_installments_amounts four
          parseFloat_or_0_def eval_nat_numeral)
qed

theorem installment_defaults_witness:
  "map inst_number
     (filter (\<lambda>i. inst_enrollment_id i = 1)
        (payment_installments
           (snd (generateBilling no_faults (utc_host (2025, 1, 15)) 1 (Some 3)
                   (enrolled_ledger bare_scheme)))))
     = [1, 2, 3, 4]
   \<and> map fee_amount
     (filter (\<lambda>f. fee_enrollment_id f = 1)
        (enrollment_fees
           (snd (generateBilling no_faults (utc_host (2025, 1, 15)) 1 (Some 3)
                   (enrolled_ledger bare_scheme)))))
     = [0]"
  using installment_defaults [where eid = 1 and st = "enrolled_ledger bare_scheme"
      and en = enrollment1 and sc = bare_scheme and faults = no_faults
      and h = "utc_host (2025, 1, 15)" and cb = "Some 3"]
  by (auto simp add: billing_samples single_def round2_def parseFloat_or_0_def)

subsection \<open>Checkout amount\<close>

lemma sort_key_head_least:
  assumes "sort_key f xs = y # ys"
  shows "y \<in> set xs \<and> (\<forall>x\<in>set xs. f y \<le> f x)"
proof -
  have s: "set (y # ys) = set xs"
    using assms set_sort [of f xs] by simp
  have "sorted (map f (y # ys))"
    using assms sorted_sort_key [of f xs] by simp
  then have "\<forall>z\<in>set ys. f y \<le> f z" by simp
  then have "\<forall>x\<in>set (y # ys). f y \<le> f x" by simp
  then show ?thesis using s by auto
qed

lemma sort_key_Nil_iff: "sort_key f xs = [] \<longleftrightarrow> xs = []"
  using length_sort [of f xs] by (metis length_0_conv)

lemma create_checkout_determine:
  assumes nz: "eid \<noteq> 0"
      and en: "filter (\<lambda>e. enr_id e = eid) (enrollments st) = [en]"
      and acc: "filter (\<lambda>a. acc_student_id a = enr_student_id en) (accounts st) = [account]"
      and sc: "filter (\<lambda>s. Some (sch_id s) = enr_scheme_id en) (tuition_schemes st) = [sc]"
  shows "fst (create_checkout now (Some eid) cb st)
           = (case determine_payment sc eid st of
                Inl err \<Rightarrow> Inl (400, err)
              | Inr (amount, description, payment_type) \<Rightarrow>
                  Inr \<lparr>co_payment_id = next_id (map pay_id (payments st)),
                       co_amount = amount, co_payment_type = payment_type,
                       co_description = description, co_scheme_id = sch_id sc\<rparr>)"
proof -
  have id: "enr_id en = eid"
  proof -
    have "en \<in> set (filter (\<lambda>e. enr_id e = eid) (enrollments st))"
      unfolding en by simp
    then show ?thesis by simp
  qed
  show ?thesis
    using nz en acc sc
    by (simp add: create_checkout_def truthy_id_def id single_def maybeSingle_def Let_def
          split: sum.splits prod.splits)
qed

lemma round2_nonpositive: "round2 x \<le> 0 \<longleftrightarrow> \<lfloor>x * 100 + 1 / 2\<rfloor> \<le> 0"
  by (simp add: round2_def divide_le_0_iff)

lemma round2_cents: "round2 x = rat_of_int \<lfloor>x * 100 + 1 / 2\<rfloor> / 100"
  by (simp add: round2_def)

lemma billed_ledger_value:
  "billed_ledger =
     \<lparr>enrollments = [enrollment1], tuition_schemes = [installment_scheme], students = [],
      course_subjects = [], enrollment_subjects = [],
      accounts = [\<lparr>acc_id = 1, acc_student_id = 10, acc_total_balance = 9000,
                   acc_last_updated = None\<rparr>],
      payments = [], payment_transactions = [],
      enrollment_fees =
        [\<lparr>fee_id = 1, fee_enrollment_id = 1, fee_type = ''Downpayment'',
          fee_description = ''Downpayment - Plan B'', fee_amount = 1000, fee_is_paid = False,
          fee_paid_at = None\<rparr>],
      payment_installments =
        [\<lparr>inst_id = 1, inst_enrollment_id = 1, inst_number = 1, inst_amount = 2000,
          inst_due_date = (2025, 2, 15), inst_status = ''pending'', inst_paid_at = None,
          inst_payment_id = None\<rparr>,
         \<lparr>inst_id = 2, inst_enrollment_id = 1, inst_number = 2, inst_amount = 2000,
          inst_due_date = (2025, 3, 15), inst_status = ''pending'', inst_paid_at = None,
          inst_payment_id = None\<rparr>,
         \<lparr>inst_id = 3, inst_enrollment_id = 1, inst_number = 3, inst_amount = 2000,
          inst_due_date = (2025, 4, 15), inst_status = ''pending'', inst_paid_at = None,
          inst_payment_id = None\<rparr>,
         \<lparr>inst_id = 4, inst_enrollment_id = 1, inst_number = 4, inst_amount = 2000,
          inst_due_date = (2025, 5, 15), inst_status = ''pending'', inst_paid_at = None,
          inst_payment_id = None\<rparr>],
      account_transactions = []\<rparr>"
  by (simp add: billed_ledger_def billing_samples billing_eval floor_rat_numeral)

text \<open>
  C7. For an enrollment that has exactly one account and a scheme,
  \<^verbatim>\<open>POST /create-checkout\<close> determines the payment as follows. Full-payment scheme: it
  fails when the enrollment has no unpaid fee, and otherwise takes the sum of its unpaid
  fees, type \<^verbatim>\<open>full_payment\<close>. Installment scheme whose downpayment fee is unpaid: the
  amount of that fee, type \<^verbatim>\<open>downpayment\<close>. Installment scheme whose downpayment fee is
  paid: it fails when no installment of the enrollment is pending, and otherwise takes the
  amount of an installment that is pending, belongs to the enrollment and has the lowest
  installment number among those, type \<^verbatim>\<open>installment\<close>. The amount \<open>x\<close> so determined
  is rounded to cents, half a cent upwards: the checkout carries
  \<open>\<lfloor>100 x + 1/2\<rfloor> / 100\<close>, and fails with "Invalid payment amount" when that is not
  positive.
\<close>

theorem checkout_amount_determination:
  fixes st :: ledger and eid :: nat and now :: timestamp and cb :: "nat option"
    and sc :: tuition_scheme
  assumes nz: "eid \<noteq> 0"
      and en: "filter (\<lambda>e. enr_id e = eid) (enrollments st) = [en]"
      and acc: "filter (\<lambda>a. acc_student_id a = enr_student_id en) (accounts st) = [account]"
      and sc: "filter (\<lambda>s. Some (sch_id s) = enr_scheme_id en) (tuition_schemes st) = [sc]"
  defines "unpaid \<equiv> filter (\<lambda>f. fee_enrollment_id f = eid \<and> \<not> fee_is_paid f) (enrollment_fees st)"
      and "down \<equiv> filter (\<lambda>f. fee_enrollment_id f = eid \<and> fee_type f = ''Downpayment'')
                          (enrollment_fees st)"
      and "result \<equiv> fst (create_checkout now (Some eid) cb st)"
  defines "priced \<equiv> \<lambda>x payment_type.
             if \<lfloor>x * 100 + 1 / 2\<rfloor> \<le> 0
             then result = Inl (400, ''Invalid payment amount'')
             else \<exists>c. result = Inr c \<and> co_amount c = rat_of_int \<lfloor>x * 100 + 1 / 2\<rfloor> / 100
                      \<and> co_payment_type c = payment_type"
  shows "(sch_type sc = ''full_payment'' \<and> unpaid = [] \<longrightarrow>
            result = Inl (400, ''No unpaid fees found. All payments completed or billing not generated.''))
       \<and> (sch_type sc = ''full_payment'' \<and> unpaid \<noteq> [] \<longrightarrow>
            priced (sum_list (map fee_amount unpaid)) ''full_payment'')
       \<and> (\<forall>f. sch_type sc = ''installment'' \<and> down = [f] \<and> \<not> fee_is_paid f \<longrightarrow>
            priced (fee_amount f) ''downpayment'')
       \<and> (\<forall>f. sch_type sc = ''installment'' \<and> down = [f] \<and> fee_is_paid f
              \<and> (\<forall>i\<in>set (payment_installments st).
                     \<not> (inst_enrollment_id i = eid \<and> inst_status i = ''pending'')) \<longrightarrow>
            result = Inl (400, ''No pending installments found. All payments completed.''))
       \<and> (\<forall>f j. sch_type sc = ''installment'' \<and> down = [f] \<and> fee_is_paid f
              \<and> j \<in> set (payment_installments st)
              \<and> inst_enrollment_id j = eid \<and> inst_status j = ''pending'' \<longrightarrow>
            (\<exists>i\<in>set (payment_installments st).
               inst_enrollment_id i = eid \<and> inst_status i = ''pending''
               \<and> (\<forall>k\<in>set (payment_installments st).
                      inst_enrollment_id k = eid \<and> inst_status k = ''pending''
                      \<longrightarrow> inst_number i \<le> inst_number k)
               \<and> priced (inst_amount i) ''installment''))"
proof -
  let ?pending = "filter (\<lambda>i. inst_enrollment_id i = eid \<and> inst_status i = ''pending'')
                         (payment_installments st)"
  note link = create_checkout_determine [OF nz en acc sc, of now cb]
  have a: "sch_type sc = ''full_payment'' \<and> unpaid = [] \<longrightarrow>
            result = Inl (400, ''No unpaid fees found. All payments completed or billing not generated.'')"
    unfolding result_def link unpaid_def by (simp add: determine_payment_def Let_def)
  have b: "sch_type sc = ''full_payment'' \<and> unpaid \<noteq> [] \<longrightarrow>
            priced (sum_list (map fee_amount unpaid)) ''full_payment''"
    unfolding priced_def result_def link unpaid_def
    by (simp add: determine_payment_def Let_def round2_nonpositive round2_cents)
  have c: "\<forall>f. sch_type sc = ''installment'' \<and> down = [f] \<and> \<not> fee_is_paid f \<longrightarrow>
            priced (fee_amount f) ''downpayment''"
    unfolding priced_def result_def link down_def
    by (simp add: determine_payment_def Let_def maybeSingle_def round2_nonpositive round2_cents)
  have d: "\<forall>f. sch_type sc = ''installment'' \<and> down = [f] \<and> fee_is_paid f
              \<and> (\<forall>i\<in>set (payment_installments st).
                     \<not> (inst_enrollment_id i = eid \<and> inst_status i = ''pending'')) \<longrightarrow>
            result = Inl (400, ''No pending installments found. All payments completed.'')"
  proof (intro allI impI)
    fix f
    assume h: "sch_type sc = ''installment'' \<and> down = [f] \<and> fee_is_paid f
              \<and> (\<forall>i\<in>set (payment_installments st).
                     \<not> (inst_enrollment_id i = eid \<and> inst_status i = ''pending''))"
    then have none: "?pending = []"
      by (simp add: filter_empty_conv)
    show "result = Inl (400, ''No pending installments found. All payments completed.'')"
      using h unfolding result_def link down_def
      by (simp add: determine_payment_def Let_def maybeSingle_def none)
  qed
  have e: "\<forall>f j. sch_type sc = ''installment'' \<and> down = [f] \<and> fee_is_paid f
              \<and> j \<in> set (payment_installments st)
              \<and> inst_enrollment_id j = eid \<and> inst_status j = ''pending'' \<longrightarrow>
            (\<exists>i\<in>set (payment_installments st).
               inst_enrollment_id i = eid \<and> inst_status i = ''pending''
               \<and> (\<forall>k\<in>set (payment_installments st).
                      inst_enrollment_id k = eid \<and> inst_status k = ''pending''
                      \<longrightarrow> inst_number i \<le> inst_number k)
               \<and> priced (inst_amount i) ''installment'')"
  proof (intro allI impI)
    fix f j
    assume h: "sch_type sc = ''installment'' \<and> down = [f] \<and> fee_is_paid f
              \<and> j \<in> set (payment_installments st)
              \<and> inst_enrollment_id j = eid \<and> inst_status j = ''pending''"
    then have "j \<in> set ?pending" by simp
    then have "?pending \<noteq> []" by (metis empty_iff list.set(1))
    then obtain i rest where srt: "sort_key inst_number ?pending = i # rest"
      using sort_key_Nil_iff [of inst_number ?pending]
      by (cases "sort_key inst_number ?pending") auto
    from sort_key_head_least [OF srt]
    have mem: "i \<in> set ?pending" and least: "\<forall>k\<in>set ?pending. inst_number i \<le> inst_number k"
      by simp_all
    have i1: "i \<in> set (payment_installments st)"
      and i2: "inst_enrollment_id i = eid" and i3: "inst_status i = ''pending''"
      using mem by simp_all
    have i4: "\<forall>k\<in>set (payment_installments st).
                 inst_enrollment_id k = eid \<and> inst_status k = ''pending''
                 \<longrightarrow> inst_number i \<le> inst_number k"
      using least by simp
    have i5: "priced (inst_amount i) ''installment''"
      using h srt unfolding priced_def result_def link down_def
      by (simp add: determine_payment_def Let_def maybeSingle_def round2_nonpositive round2_cents)
    show "\<exists>i\<in>set (payment_installments st).
               inst_enrollment_id i = eid \<and> inst_status i = ''pending''
               \<and> (\<forall>k\<in>set (payment_installments st).
                      inst_enrollment_id k = eid \<and> inst_status k = ''pending''
                      \<longrightarrow> inst_number i \<le> inst_number k)
               \<and> priced (inst_amount i) ''installment''"
      using i1 i2 i3 i4 i5 by (intro bexI [of _ i] conjI)
  qed
  from a b c d e show ?thesis by (intro conjI)
qed

text \<open>
  On the ledger that billing generation leaves, the checkout asks for the downpayment of
  1000; once that fee is paid, for installment 1 of 2000.
\<close>

theorem checkout_amount_determination_witness:
  "(\<exists>c. fst (create_checkout 200 (Some 1) (Some 3) billed_ledger) = Inr c
         \<and> co_amount c = 1000 \<and> co_payment_type c = ''downpayment'')
   \<and> (\<exists>c. fst (create_checkout 300 (Some 1) (Some 3) downpaid_ledger) = Inr c
         \<and> co_amount c = 2000 \<and> co_payment_type c = ''installment'')"
proof -
  let ?account = "\<lparr>acc_id = 1, acc_student_id = 10, acc_total_balance = 9000,
                   acc_last_updated = None\<rparr>"
  let ?fee = "\<lparr>fee_id = 1, fee_enrollment_id = 1, fee_type = ''Downpayment'',
          fee_description = ''Downpayment - Plan B'', fee_amount = 1000, fee_is_paid = False,
          fee_paid_at = None\<rparr>"
  have down: "\<forall>f. sch_type installment_scheme = ''installment''
              \<and> filter (\<lambda>f. fee_enrollment_id f = 1 \<and> fee_type f = ''Downpayment'')
                   (enrollment_fees billed_ledger) = [f]
              \<and> \<not> fee_is_paid f \<longrightarrow>
            (if \<lfloor>fee_amount f * 100 + 1 / 2\<rfloor> \<le> 0
             then fst (create_checkout 200 (Some 1) (Some 3) billed_ledger)
                    = Inl (400, ''Invalid payment amount'')
             else \<exists>c. fst (create_checkout 200 (Some 1) (Some 3) billed_ledger) = Inr c
                      \<and> co_amount c = rat_of_int \<lfloor>fee_amount f * 100 + 1 / 2\<rfloor> / 100
                      \<and> co_payment_type c = ''downpayment'')"
    by (rule checkout_amount_determination
          [where eid = 1 and st = billed_ledger and en = enrollment1
             and sc = installment_scheme and now = 200 and cb = "Some 3"
             and account = ?account,
           THEN conjunct2, THEN conjunct2, THEN conjunct1])
       (simp_all add: billed_ledger_value enrollment1_def installment_scheme_def)
  have one: "\<exists>c. fst (create_checkout 200 (Some 1) (Some 3) billed_ledger) = Inr c
         \<and> co_amount c = 1000 \<and> co_payment_type c = ''downpayment''"
    using down [THEN spec, of ?fee]
    by (simp add: billed_ledger_value installment_scheme_def floor_rat_numeral)
  let ?rows = "payment_installments downpaid_ledger"
  have next_one: "\<forall>f j. sch_type installment_scheme = ''installment''
              \<and> filter (\<lambda>f. fee_enrollment_id f = 1 \<and> fee_type f = ''Downpayment'')
                   (enrollment_fees downpaid_ledger) = [f]
              \<and> fee_is_paid f
              \<and> j \<in> set ?rows \<and> inst_enrollment_id j = 1 \<and> inst_status j = ''pending'' \<longrightarrow>
            (\<exists>i\<in>set ?rows.
               inst_enrollment_id i = 1 \<and> inst_status i = ''pending''
               \<and> (\<forall>k\<in>set ?rows.
                      inst_enrollment_id k = 1 \<and> inst_status k = ''pending''
                      \<longrightarrow> inst_number i \<le> inst_number k)
               \<and> (if \<lfloor>inst_amount i * 100 + 1 / 2\<rfloor> \<le> 0
                   then fst (create_checkout 300 (Some 1) (Some 3) downpaid_ledger)
                          = Inl (400, ''Invalid payment amount'')
                   else \<exists>c. fst (create_checkout 300 (Some 1) (Some 3) downpaid_ledger) = Inr c
                            \<and> co_amount c = rat_of_int \<lfloor>inst_amount i * 100 + 1 / 2\<rfloor> / 100
                            \<and> co_payment_type c = ''installment''))"
    by (rule checkout_amount_determination
          [where eid = 1 and st = downpaid_ledger and en = enrollment1
             and sc = installment_scheme and now = 300 and cb = "Some 3"
             and account = ?account,
           THEN conjunct2, THEN conjunct2, THEN conjunct2, THEN conjunct2])
       (simp_all add: downpaid_ledger_def billed_ledger_value enrollment1_def
          installment_scheme_def)
  let ?paid = "?fee\<lparr>fee_is_paid := True, fee_paid_at := Some 150\<rparr>"
  let ?first = "\<lparr>inst_id = 1, inst_enrollment_id = 1, inst_number = 1, inst_amount = 2000,
          inst_due_date = (2025, 2, 15), inst_status = ''pending'', inst_paid_at = None,
          inst_payment_id = None\<rparr>"
  have "\<exists>i\<in>set ?rows.
               inst_enrollment_id i = 1 \<and> inst_status i = ''pending''
               \<and> (\<forall>k\<in>set ?rows.
                      inst_enrollment_id k = 1 \<and> inst_status k = ''pending''
                      \<longrightarrow> inst_number i \<le> inst_number k)
               \<and> (if \<lfloor>inst_amount i * 100 + 1 / 2\<rfloor> \<le> 0
                   then fst (create_checkout 300 (Some 1) (Some 3) downpaid_ledger)
                          = Inl (400, ''Invalid payment amount'')
                   else \<exists>c. fst (create_checkout 300 (Some 1) (Some 3) downpaid_ledger) = Inr c
                            \<and> co_amount c = rat_of_int \<lfloor>inst_amount i * 100 + 1 / 2\<rfloor> / 100
                            \<and> co_payment_type c = ''installment'')"
    by (rule next_one [THEN spec, THEN spec, THEN mp, of ?paid ?first])
       (simp add: downpaid_ledger_def billed_ledger_value installment_scheme_def)
  then obtain i where i: "i \<in> set ?rows"
    and priced: "if \<lfloor>inst_amount i * 100 + 1 / 2\<rfloor> \<le> 0
                   then fst (create_checkout 300 (Some 1) (Some 3) downpaid_ledger)
                          = Inl (400, ''Invalid payment amount'')
                   else \<exists>c. fst (create_checkout 300 (Some 1) (Some 3) downpaid_ledger) = Inr c
                            \<and> co_amount c = rat_of_int \<lfloor>inst_amount i * 100 + 1 / 2\<rfloor> / 100
                            \<and> co_payment_type c = ''installment''"
    by (elim bexE conjE)
  have amount: "inst_amount i = 2000"
    using i by (auto simp add: downpaid_ledger_def billed_ledger_value)
  have two: "\<exists>c. fst (create_checkout 300 (Some 1) (Some 3) downpaid_ledger) = Inr c
         \<and> co_amount c = 2000 \<and> co_payment_type c = ''installment''"
    using priced unfolding amount by (simp add: floor_rat_numeral)
  from one two show ?thesis by (rule conjI)
qed

subsection \<open>Installment settlement\<close>

lemma installment_checkout_ledger_value:
  "installment_checkout_ledger =
     downpaid_ledger\<lparr>payments :=
       [\<lparr>pay_id = 1, pay_account_id = 1, pay_enrollment_id = Some 1, pay_amount = 2000,
         pay_status = ''Pending'', pay_type = ''installment'', pay_method = None,
         pay_reference_no = None, pay_created_by = Some 3, pay_date = 300,
         pay_for_semester_id = Some 6,
         pay_idempotency_key = Some (1, ''installment'', 300)\<rparr>]\<rparr>"
  by (simp add: installment_checkout_ledger_def create_checkout_def determine_payment_def
        downpaid_ledger_def billed_ledger_value enrollment1_def installment_scheme_def
        truthy_id_def single_def maybeSingle_def next_id_def round2_def floor_rat_numeral
        Let_def)

text \<open>
  C2. The claim asks that completing an \<^verbatim>\<open>installment\<close> or \<^verbatim>\<open>monthly\<close> payment
  marks one installment paid, the pending one of lowest number, and links it to the
  payment. The block that the mock completion and the webhook's tuition branch share
  settles \<^verbatim>\<open>enrollment\<close>, \<^verbatim>\<open>balance\<close> and \<^verbatim>\<open>monthly\<close> payments, and has no case for
  \<^verbatim>\<open>installment\<close>, the type that checkout creation writes for the next pending
  installment. Completing that payment leaves all four installments pending and unlinked
  and the balance at 9000, while the payment becomes \<^verbatim>\<open>Completed\<close> and the log row
  records a balance of 7000 that was never written.
\<close>

theorem installment_payment_settles_nothing:
  "map (\<lambda>p. (pay_id p, pay_type p, pay_status p)) (payments installment_checkout_ledger)
     = [(1, ''installment'', ''Pending'')]
   \<and> map (\<lambda>i. (inst_number i, inst_status i)) (payment_installments installment_checkout_ledger)
     = [(1, ''pending''), (2, ''pending''), (3, ''pending''), (4, ''pending'')]
   \<and> map (\<lambda>p. (pay_id p, pay_status p))
         (payments (snd (mock_complete env_offline written 400 1 mock_default
                           installment_checkout_ledger)))
     = [(1, ''Completed'')]
   \<and> map (\<lambda>i. (inst_number i, inst_status i, inst_payment_id i))
         (payment_installments (snd (mock_complete env_offline written 400 1 mock_default
                                       installment_checkout_ledger)))
     = [(1, ''pending'', None), (2, ''pending'', None), (3, ''pending'', None),
        (4, ''pending'', None)]
   \<and> map acc_total_balance
         (accounts (snd (mock_complete env_offline written 400 1 mock_default
                           installment_checkout_ledger)))
     = [9000]
   \<and> map (\<lambda>t. (atx_balance_before t, atx_balance_after t))
         (account_transactions (snd (mock_complete env_offline written 400 1 mock_default
                                       installment_checkout_ledger)))
     = [(9000, 7000)]
   \<and> map (\<lambda>i. (inst_number i, inst_status i, inst_payment_id i))
         (payment_installments (snd (webhook env_live written rpc_ok 400 (paid_event 1)
                                       installment_checkout_ledger)))
     = [(1, ''pending'', None), (2, ''pending'', None), (3, ''pending'', None),
        (4, ''pending'', None)]"
  by (simp add: installment_checkout_ledger_value sample_defs mock_complete_def webhook_def
        payment_by_id_def account_of_def single_def process_by_type_def
        payments_PAYMONGO_ENABLED_def truthy_str_def downpaid_ledger_def billed_ledger_value
        Let_def)


end
